theory Spec2Isabelle
  imports Main
begin

section \<open>Python values\<close>

text \<open>
  A Python \<^verbatim>\<open>str\<close> is the list of its code points, so that \<^verbatim>\<open>len\<close> and slices count
  what Python counts (the source file holds characters beyond Latin-1, which a HOL
  \<^typ>\<open>char\<close> cannot carry). \<open>py\<close> turns an ASCII literal into such a list.
\<close>

type_synonym pystr = "nat list"

definition py :: "string \<Rightarrow> pystr" where
  "py s = map of_char s"

text \<open>
  What \<^verbatim>\<open>json.loads\<close> can return. A float is never computed with: it is carried as the
  text \<^verbatim>\<open>repr\<close> gives it. A \<^verbatim>\<open>dict\<close> is the list of its items in insertion order.
\<close>

datatype json =
    JNull
  | JBool bool
  | JInt int
  | JFloat pystr
  | JStr pystr
  | JArr "json list"
  | JObj "(pystr \<times> json) list"

datatype py_error = AttributeError | TypeError | IndexError

text \<open>Sequencing: the first exception ends the computation.\<close>

definition then_do :: "py_error + 'a \<Rightarrow> ('a \<Rightarrow> py_error + 'b) \<Rightarrow> py_error + 'b" where
  "then_do r f = (case r of Inl e \<Rightarrow> Inl e | Inr x \<Rightarrow> f x)"

subsection \<open>Strings\<close>

text \<open>\<^verbatim>\<open>s.startswith(p)\<close>\<close>

fun startswith :: "pystr \<Rightarrow> pystr \<Rightarrow> bool" where
  "startswith s [] = True"
| "startswith [] (p # ps) = False"
| "startswith (c # cs) (p # ps) = (c = p \<and> startswith cs ps)"

lemma startswith_length: "startswith s p \<Longrightarrow> length p \<le> length s"
  by (induction s p rule: startswith.induct) auto

text \<open>\<^verbatim>\<open>sub in s\<close>\<close>

fun contains :: "pystr \<Rightarrow> pystr \<Rightarrow> bool" where
  "contains sub [] = (sub = [])"
| "contains sub (c # cs) = (startswith (c # cs) sub \<or> contains sub cs)"

text \<open>
  \<^verbatim>\<open>s.split(sep)\<close>: the pieces between the leftmost non-overlapping occurrences of
  \<open>sep\<close>. \<open>acc\<close> holds the current piece, reversed. Python raises \<^verbatim>\<open>ValueError\<close> on
  an empty separator; every call in the source passes a literal fence, and the model
  gives no piece there.
\<close>

function split_from :: "pystr \<Rightarrow> pystr \<Rightarrow> pystr \<Rightarrow> pystr list" where
  "split_from sep acc s =
     (if sep = [] then []
      else if startswith s sep then rev acc # split_from sep [] (drop (length sep) s)
      else (case s of
              [] \<Rightarrow> [rev acc]
            | c # cs \<Rightarrow> split_from sep (c # acc) cs))"
  by pat_completeness auto

termination
proof (relation "measure (\<lambda>(sep, acc, s). length s)")
  show "wf (measure (\<lambda>(sep, acc, s). length s))" by simp
next
  fix sep acc :: pystr and s :: pystr
  assume "sep \<noteq> []" and "startswith s sep"
  then have "length (drop (length sep) s) < length s"
    using startswith_length [of s sep] by (cases sep; cases s) auto
  then show "((sep, [], drop (length sep) s), (sep, acc, s)) \<in> measure (\<lambda>(sep, acc, s). length s)"
    by simp
next
  fix sep acc s :: pystr and c cs
  assume "s = c # cs"
  then show "((sep, c # acc, cs), (sep, acc, s)) \<in> measure (\<lambda>(sep, acc, s). length s)"
    by simp
qed

declare split_from.simps [simp del]

definition py_split :: "pystr \<Rightarrow> pystr \<Rightarrow> pystr list" where
  "py_split sep s = split_from sep [] s"

text \<open>\<^verbatim>\<open>xs[i]\<close> for \<open>i \<ge> 0\<close>: \<^verbatim>\<open>IndexError\<close> out of range.\<close>

definition py_index :: "'a list \<Rightarrow> nat \<Rightarrow> py_error + 'a" where
  "py_index xs i = (if i < length xs then Inr (xs ! i) else Inl IndexError)"

text \<open>
  The characters \<^verbatim>\<open>str.strip()\<close> removes: those for which \<^verbatim>\<open>str.isspace\<close> holds.
\<close>

definition is_space :: "nat \<Rightarrow> bool" where
  "is_space c \<longleftrightarrow>
     (9 \<le> c \<and> c \<le> 13) \<or> (28 \<le> c \<and> c \<le> 32) \<or> c = 133 \<or> c = 160 \<or> c = 5760
     \<or> (8192 \<le> c \<and> c \<le> 8202) \<or> c = 8232 \<or> c = 8233 \<or> c = 8239 \<or> c = 8287
     \<or> c = 12288"

definition py_strip :: "pystr \<Rightarrow> pystr" where
  "py_strip s = rev (dropWhile is_space (rev (dropWhile is_space s)))"

text \<open>\<^verbatim>\<open>sep.join(xs)\<close> for a list of strings.\<close>

fun py_join :: "pystr \<Rightarrow> pystr list \<Rightarrow> pystr" where
  "py_join sep [] = []"
| "py_join sep [x] = x"
| "py_join sep (x # y # ys) = x @ sep @ py_join sep (y # ys)"

text \<open>A triple-quoted literal, line by line.\<close>

definition py_lines :: "pystr list \<Rightarrow> pystr" where
  "py_lines ls = py_join [10] ls"

text \<open>\<^verbatim>\<open>str(n)\<close> for a non-negative integer.\<close>

fun str_nat :: "nat \<Rightarrow> pystr" where
  "str_nat n = (if n < 10 then [48 + n] else str_nat (n div 10) @ [48 + n mod 10])"

subsection \<open>Dictionaries\<close>

text \<open>
  \<^verbatim>\<open>d[k] = v\<close> keeps the place of a key that is there and appends a new one; a dict
  literal is its items stored from left to right.
\<close>

fun dict_set :: "(pystr \<times> json) list \<Rightarrow> pystr \<Rightarrow> json \<Rightarrow> (pystr \<times> json) list" where
  "dict_set [] k v = [(k, v)]"
| "dict_set ((k', v') # d) k v = (if k' = k then (k, v) # d else (k', v') # dict_set d k v)"

definition mk_dict :: "(pystr \<times> json) list \<Rightarrow> (pystr \<times> json) list" where
  "mk_dict items = foldl (\<lambda>d (k, v). dict_set d k v) [] items"

text \<open>
  \<^verbatim>\<open>x.get(k, default)\<close>: only a dict has the method, every other value raises
  \<^verbatim>\<open>AttributeError\<close>.
\<close>

fun py_get :: "json \<Rightarrow> pystr \<Rightarrow> json \<Rightarrow> py_error + json" where
  "py_get (JObj d) k dflt = Inr (case map_of d k of Some v \<Rightarrow> v | None \<Rightarrow> dflt)"
| "py_get _ k dflt = Inl AttributeError"


text \<open>\<^verbatim>\<open>k in d\<close> for a value that is a dict.\<close>

fun has_key :: "json \<Rightarrow> pystr \<Rightarrow> bool" where
  "has_key (JObj d) k = (map_of d k \<noteq> None)"
| "has_key _ k = False"

text \<open>
  \<^verbatim>\<open>x[:n]\<close>: a string and a list are cut; a dict, a number, a boolean and
  \<^verbatim>\<open>None\<close> raise (the model names the error \<open>TypeError\<close>).
\<close>

fun py_slice_to :: "json \<Rightarrow> nat \<Rightarrow> py_error + json" where
  "py_slice_to (JStr s) n = Inr (JStr (take n s))"
| "py_slice_to (JArr xs) n = Inr (JArr (take n xs))"
| "py_slice_to _ n = Inl TypeError"

text \<open>The truth value of a value, as \<^verbatim>\<open>if x:\<close> reads it.\<close>

fun truthy :: "json \<Rightarrow> bool" where
  "truthy JNull = False"
| "truthy (JBool b) = b"
| "truthy (JInt i) = (i \<noteq> 0)"
| "truthy (JFloat t) = (t \<noteq> py ''0.0'' \<and> t \<noteq> py ''-0.0'')"
| "truthy (JStr s) = (s \<noteq> [])"
| "truthy (JArr xs) = (xs \<noteq> [])"
| "truthy (JObj d) = (d \<noteq> [])"

section \<open>The lesson system and what it calls\<close>

text \<open>
  \<^verbatim>\<open>BibleLanguageLearningSystem\<close>: the fields its methods read. \<^verbatim>\<open>self.client\<close> is the
  chat service of the \<open>world\<close> below.
\<close>

record bls =
  model :: pystr
  target_language :: pystr
  elevenlabs_key :: "pystr option"

text \<open>
  Library functions of Python that are no code of this repository. \<open>json_loads\<close> gives
  \<open>None\<close> where \<^verbatim>\<open>json.loads\<close> raises; \<open>py_repr\<close> is \<^verbatim>\<open>str(v)\<close> of a value that is
  no string.
\<close>

record pylib =
  json_loads :: "pystr \<Rightarrow> json option"
  json_dumps :: "json \<Rightarrow> pystr"
  py_repr :: "json \<Rightarrow> pystr"
  str_lower :: "pystr \<Rightarrow> pystr"

text \<open>\<^verbatim>\<open>f"{v}"\<close>: a string is inserted as it is.\<close>

definition py_str :: "pylib \<Rightarrow> json \<Rightarrow> pystr" where
  "py_str lib v = (case v of JStr t \<Rightarrow> t | _ \<Rightarrow> py_repr lib v)"

definition lang_lower :: "bls \<Rightarrow> pylib \<Rightarrow> pystr" where
  "lang_lower s lib = str_lower lib (target_language s)"

text \<open>
  The document tree handed to the layout library. A paragraph holds the value it was
  given (a string wherever the source builds one); \<open>Spacer w h\<close> has its height in
  hundredths of an inch.
\<close>

datatype style = CustomTitle | BodyText | Heading2 | Heading3

datatype flowable = Paragraph json style | Spacer nat nat | PageBreak

text \<open>
  The outside world. \<open>chat_create\<close> answers a chat completion (model, system prompt,
  user message, temperature in tenths) with the message content, or with the text of
  the exception it raised; the content is a string, as \<^verbatim>\<open>_call_gpt\<close> declares.
  \<open>requests_post\<close> answers the speech request (url, key, text).
\<close>

datatype http_result = Response nat pystr | RequestException

record world =
  chat_create :: "pystr \<Rightarrow> pystr \<Rightarrow> pystr \<Rightarrow> nat \<Rightarrow> pystr + pystr"
  requests_post :: "pystr \<Rightarrow> pystr \<Rightarrow> json \<Rightarrow> http_result"
  file_write_ok :: "pystr \<Rightarrow> bool"
  gettempdir :: pystr
  path_join :: "pystr \<Rightarrow> pystr \<Rightarrow> pystr"
  audio_stamp :: pystr
  pdf_stamp :: pystr
  pdf_date :: pystr

text \<open>The calls a run makes to the outside, in order.\<close>

datatype call =
    ChatCompletion pystr pystr pystr nat
  | HttpPost pystr pystr json
  | FileWrite pystr
  | BuildPdf pystr "flowable list"

text \<open>A computation: its result or the exception it raised, and the calls it made.\<close>

type_synonym 'a res = "(py_error + 'a) \<times> call list"

definition ret :: "'a \<Rightarrow> 'a res" where
  "ret x = (Inr x, [])"

definition lift :: "py_error + 'a \<Rightarrow> 'a res" where
  "lift r = (r, [])"

definition bnd :: "'a res \<Rightarrow> ('a \<Rightarrow> 'b res) \<Rightarrow> 'b res" where
  "bnd m f =
     (case m of
        (Inl e, cs) \<Rightarrow> (Inl e, cs)
      | (Inr x, cs) \<Rightarrow> (case f x of (r, cs') \<Rightarrow> (r, cs @ cs')))"

text \<open>
  \<^verbatim>\<open>_call_gpt\<close>: the text it returns (an exception of the call becomes the text
  \<^verbatim>\<open>Error: ...\<close>), and the method with the call it makes.
\<close>

definition gpt_text :: "bls \<Rightarrow> world \<Rightarrow> pystr \<Rightarrow> pystr \<Rightarrow> nat \<Rightarrow> pystr" where
  "gpt_text s w system_prompt user_message temperature =
     (case chat_create w (model s) system_prompt user_message temperature of
        Inr content \<Rightarrow> content
      | Inl e \<Rightarrow> py ''Error: '' @ e)"

definition call_gpt :: "bls \<Rightarrow> world \<Rightarrow> pystr \<Rightarrow> pystr \<Rightarrow> nat \<Rightarrow> pystr res" where
  "call_gpt s w system_prompt user_message temperature =
     (Inr (gpt_text s w system_prompt user_message temperature),
      [ChatCompletion (model s) system_prompt user_message temperature])"

section \<open>The generation stages\<close>

definition fence :: pystr where
  "fence = py ''```''"

definition fence_json :: pystr where
  "fence_json = py ''```json''"

text \<open>
  The body of the \<^verbatim>\<open>try\<close> block up to \<^verbatim>\<open>json_str\<close>, the same text in all four stages
  (lines 66-71, 106-111, 151-156, 192-197).
\<close>

definition extract_json_str :: "pystr \<Rightarrow> py_error + pystr" where
  "extract_json_str response =
     (if contains fence_json response then
        then_do (py_index (py_split fence_json response) 1) (\<lambda>a.
        then_do (py_index (py_split fence a) 0) (\<lambda>b.
        Inr (py_strip b)))
      else if contains fence response then
        then_do (py_index (py_split fence response) 1) (\<lambda>a.
        then_do (py_index (py_split fence a) 0) (\<lambda>b.
        Inr (py_strip b)))
      else Inr (py_strip response))"

text \<open>
  The \<^verbatim>\<open>try\<close> block: \<^verbatim>\<open>return json.loads(json_str)\<close>, or \<open>None\<close> where it raises. The
  bare \<^verbatim>\<open>except:\<close> then returns the stage's fallback.
\<close>

definition try_loads :: "pylib \<Rightarrow> pystr \<Rightarrow> json option" where
  "try_loads lib response =
     (case extract_json_str response of
        Inl e \<Rightarrow> None
      | Inr json_str \<Rightarrow> json_loads lib json_str)"

definition loads_or :: "pylib \<Rightarrow> pystr \<Rightarrow> json \<Rightarrow> json" where
  "loads_or lib response fallback =
     (case try_loads lib response of
        Some v \<Rightarrow> v
      | None \<Rightarrow> fallback)"

subsection \<open>Stage 1: the verse\<close>

definition verse_system_prompt :: "bls \<Rightarrow> pylib \<Rightarrow> pystr \<Rightarrow> pystr" where
  "verse_system_prompt s lib language_level = py_lines
     [py ''You are a Bible study coordinator agent. Your role is to:'',
      py ''1. Select an appropriate verse of the day'',
      py ''2. Provide a short meditation paragraph (2-3 sentences) in both English and '' @ target_language s,
      py ''3. Ensure content is appropriate for '' @ language_level @ py '' language learners'',
      [],
      py ''Return ONLY valid JSON with these exact keys:'',
      py ''- \"verse_reference\": The Bible verse reference'',
      py ''- \"verse_text_english\": The verse in English'',
      py ''- \"verse_text_'' @ lang_lower s lib @ py ''\": The verse in '' @ target_language s,
      py ''- \"meditation_english\": Meditation in English'',
      py ''- \"meditation_'' @ lang_lower s lib @ py ''\": Meditation in '' @ target_language s]"

definition verse_user_message :: "bls \<Rightarrow> pystr \<Rightarrow> pystr" where
  "verse_user_message s language_level =
     py ''Provide verse of the day with meditation for '' @ target_language s
       @ py '' at '' @ language_level @ py '' level.''"

definition verse_fallback :: "bls \<Rightarrow> pylib \<Rightarrow> pystr \<Rightarrow> json" where
  "verse_fallback s lib response = JObj (mk_dict
     [(py ''verse_reference'', JStr (py ''John 3:16'')),
      (py ''verse_text_english'', JStr (py ''For God so loved the world...'')),
      (py ''verse_text_'' @ lang_lower s lib, JStr (take 100 response)),
      (py ''meditation_english'', JStr (py ''God'' @ [39] @ py ''s love for humanity.'')),
      (py ''meditation_'' @ lang_lower s lib,
         JStr (if length response > 100 then take 100 (drop 100 response)
               else py ''Meditaci'' @ [8730, 8805] @ py ''n''))])"

definition agent_verse_retriever :: "bls \<Rightarrow> pylib \<Rightarrow> world \<Rightarrow> pystr \<Rightarrow> json res" where
  "agent_verse_retriever s lib w language_level =
     bnd (call_gpt s w (verse_system_prompt s lib language_level)
            (verse_user_message s language_level) 7) (\<lambda>response.
     ret (loads_or lib response (verse_fallback s lib response)))"

subsection \<open>Stage 2: the reading\<close>

definition reading_system_prompt :: "bls \<Rightarrow> pylib \<Rightarrow> pystr \<Rightarrow> pystr" where
  "reading_system_prompt s lib language_level = py_lines
     [py ''You are a language learning content creator.'',
      py ''Create a reading comprehension paragraph (150-200 words) in '' @ target_language s @ py ''.'',
      [],
      py ''Requirements:'',
      py ''- Appropriate for '' @ language_level @ py '' level'',
      py ''- Include theological insights and practical applications'',
      py ''- Use clear, educational language'',
      py ''- Natural pronunciation-friendly text (avoid complex punctuation)'',
      [],
      py ''Return ONLY valid JSON with:'',
      py ''- \"reading_text_'' @ lang_lower s lib @ py ''\": Reading text in '' @ target_language s,
      py ''- \"reading_text_english\": Reading text in English'',
      py ''- \"key_vocabulary\": Array of important vocabulary words'']"

definition reading_user_message :: "bls \<Rightarrow> pylib \<Rightarrow> json \<Rightarrow> pystr res" where
  "reading_user_message s lib verse_data =
     bnd (lift (py_get verse_data (py ''verse_reference'') (JStr (py ''N/A'')))) (\<lambda>verse.
     bnd (lift (py_get verse_data (py ''verse_text_'' @ lang_lower s lib) (JStr []))) (\<lambda>text.
     ret (py_lines
       [py ''Create content based on:'',
        py ''Verse: '' @ py_str lib verse,
        py ''Text: '' @ py_str lib text])))"

definition reading_fallback :: "bls \<Rightarrow> pylib \<Rightarrow> pystr \<Rightarrow> json" where
  "reading_fallback s lib response = JObj (mk_dict
     [(py ''reading_text_'' @ lang_lower s lib, JStr (take 300 response)),
      (py ''reading_text_english'', JStr (py ''Reading comprehension text'')),
      (py ''key_vocabulary'', JArr [JStr (py ''faith''), JStr (py ''love''), JStr (py ''grace'')])])"

definition agent_content_creator :: "bls \<Rightarrow> pylib \<Rightarrow> world \<Rightarrow> json \<Rightarrow> pystr \<Rightarrow> json res" where
  "agent_content_creator s lib w verse_data language_level =
     bnd (reading_user_message s lib verse_data) (\<lambda>user_message.
     bnd (call_gpt s w (reading_system_prompt s lib language_level) user_message 8) (\<lambda>response.
     ret (loads_or lib response (reading_fallback s lib response))))"

subsection \<open>Stage 3: the exercises\<close>

definition lesson_system_prompt :: "bls \<Rightarrow> pystr \<Rightarrow> pystr" where
  "lesson_system_prompt s language_level = py_lines
     [py ''You are an expert language lesson designer for '' @ target_language s @ py ''.'',
      py ''Create a comprehensive lesson for '' @ language_level @ py '' level including:'',
      [],
      py ''1. READING: 4-5 comprehension questions about the reading text (in '' @ target_language s @ py '')'',
      py ''2. WRITING: 3 writing prompts related to the theme (in '' @ target_language s @ py '')'',
      py ''3. LISTENING: 4 questions about what students should listen for in the audio (in '' @ target_language s @ py '')'',
      py ''4. SPEAKING: 3 speaking prompts for oral practice (in '' @ target_language s @ py '')'',
      py ''5. FILLING: 3-4 fill-in-the-blank sentences using vocabulary from the reading (in '' @ target_language s @ py '')'',
      py ''   - Use ___ to indicate where the word should go'',
      py ''   - Make blanks appropriate for '' @ language_level @ py '' level'',
      [],
      py ''Return ONLY valid JSON with:'',
      py ''- \"reading_exercises\": Array of objects with \"question\" field'',
      py ''- \"writing_exercises\": Array of objects with \"question\" field'',
      py ''- \"listening_exercises\": Array of objects with \"question\" field'',
      py ''- \"speaking_exercises\": Array of objects with \"question\" field'',
      py ''- \"filling_exercises\": Array of objects with \"question\" field (sentences with ___ for blanks)'',
      [],
      py ''Return ONLY the JSON object, no additional text.'']"

definition lesson_user_message :: "bls \<Rightarrow> pylib \<Rightarrow> json \<Rightarrow> json \<Rightarrow> pystr res" where
  "lesson_user_message s lib verse_data reading_data =
     bnd (lift (py_get verse_data (py ''verse_reference'') JNull)) (\<lambda>verse.
     bnd (lift (py_get reading_data (py ''reading_text_'' @ lang_lower s lib) (JStr []))) (\<lambda>text.
     bnd (lift (py_slice_to text 200)) (\<lambda>reading.
     bnd (lift (py_get reading_data (py ''key_vocabulary'') (JArr []))) (\<lambda>vocabulary.
     ret (py_lines
       [py ''Design lesson based on:'',
        py ''Verse: '' @ py_str lib verse,
        py ''Reading: '' @ py_str lib reading,
        py ''Vocabulary: '' @ py_str lib vocabulary])))))"

definition lesson_fallback :: json where
  "lesson_fallback = JObj (mk_dict
     [(py ''reading_exercises'', JArr [JObj (mk_dict [(py ''question'',
         JStr ([172, 248] @ py ''Cu'' @ [8730, 176] @ py ''l es el tema principal del texto?''))])]),
      (py ''writing_exercises'', JArr [JObj (mk_dict [(py ''question'',
         JStr (py ''Escribe sobre tu experiencia personal con este tema.''))])]),
      (py ''listening_exercises'', JArr [JObj (mk_dict [(py ''question'',
         JStr ([172, 248] @ py ''Qu'' @ [8730, 169] @ py '' palabras clave escuchaste?''))])]),
      (py ''speaking_exercises'', JArr [JObj (mk_dict [(py ''question'',
         JStr (py ''Explica el significado del verso en tus propias palabras.''))])]),
      (py ''filling_exercises'', JArr [JObj (mk_dict [(py ''question'',
         JStr (py ''La ___ es importante en la vida cristiana.''))])])])"

definition agent_lesson_designer :: "bls \<Rightarrow> pylib \<Rightarrow> world \<Rightarrow> json \<Rightarrow> json \<Rightarrow> pystr \<Rightarrow> json res" where
  "agent_lesson_designer s lib w verse_data reading_data language_level =
     bnd (lesson_user_message s lib verse_data reading_data) (\<lambda>user_message.
     bnd (call_gpt s w (lesson_system_prompt s language_level) user_message 7) (\<lambda>response.
     ret (loads_or lib response lesson_fallback)))"

subsection \<open>Stage 4: the answer key\<close>

definition answer_system_prompt :: "bls \<Rightarrow> pystr" where
  "answer_system_prompt s = py_lines
     [py ''You are an answer key generator for '' @ target_language s @ py ''.'',
      py ''Provide detailed answers and model responses in '' @ target_language s @ py ''.'',
      [],
      py ''For filling exercises, provide ONLY the word(s) that should fill the blank(s).'',
      [],
      py ''Return ONLY valid JSON with:'',
      py ''- \"reading_exercises\": Array with \"answer\" and \"explanation\"'',
      py ''- \"writing_exercises\": Array with \"answer\" (model response) and \"explanation\"'',
      py ''- \"listening_exercises\": Array with \"answer\" (key points to listen for) and \"explanation\"'',
      py ''- \"speaking_exercises\": Array with \"answer\" (sample response) and \"explanation\"'',
      py ''- \"filling_exercises\": Array with \"answer\" (the missing word/phrase ONLY) and \"explanation\"'',
      py ''        '',
      py ''Return ONLY the JSON object, no additional text.'']"

definition answer_user_message :: "bls \<Rightarrow> pylib \<Rightarrow> json \<Rightarrow> json \<Rightarrow> pystr res" where
  "answer_user_message s lib lesson_data reading_data =
     bnd (lift (py_get reading_data (py ''reading_text_'' @ lang_lower s lib) (JStr []))) (\<lambda>text.
     bnd (lift (py_slice_to text 300)) (\<lambda>reading.
     bnd (lift (py_get reading_data (py ''key_vocabulary'') (JArr []))) (\<lambda>vocabulary.
     ret (py_lines
       [py ''Generate answers for:'',
        py ''Exercises: '' @ take 500 (json_dumps lib lesson_data),
        py ''Reading context: '' @ py_str lib reading,
        py ''Vocabulary: '' @ py_str lib vocabulary]))))"

definition answer_fallback :: json where
  "answer_fallback = JObj (mk_dict
     [(py ''reading_exercises'', JArr [JObj (mk_dict
         [(py ''answer'', JStr (py ''El tema principal es...'')),
          (py ''explanation'', JStr (py ''Se encuentra en el p'' @ [8730, 176] @ py ''rrafo principal''))])]),
      (py ''writing_exercises'', JArr [JObj (mk_dict
         [(py ''answer'', JStr (py ''Ejemplo de respuesta modelo'')),
          (py ''explanation'', JStr (py ''Respuesta modelo''))])]),
      (py ''listening_exercises'', JArr [JObj (mk_dict
         [(py ''answer'', JStr (py ''Palabras clave: fe, amor, esperanza'')),
          (py ''explanation'', JStr (py ''Escuchar atentamente''))])]),
      (py ''speaking_exercises'', JArr [JObj (mk_dict
         [(py ''answer'', JStr (py ''El verso significa que...'')),
          (py ''explanation'', JStr (py ''Gu'' @ [8730, 8800] @ py ''a de conversaci'' @ [8730, 8805] @ py ''n''))])]),
      (py ''filling_exercises'', JArr [JObj (mk_dict
         [(py ''answer'', JStr (py ''fe'')),
          (py ''explanation'', JStr (py ''La palabra correcta es '' @ [39] @ py ''fe'' @ [39]
             @ py '' seg'' @ [8730, 8747] @ py ''n el contexto''))])])])"

definition agent_answer_key_generator :: "bls \<Rightarrow> pylib \<Rightarrow> world \<Rightarrow> json \<Rightarrow> json \<Rightarrow> json \<Rightarrow> json res" where
  "agent_answer_key_generator s lib w lesson_data verse_data reading_data =
     bnd (answer_user_message s lib lesson_data reading_data) (\<lambda>user_message.
     bnd (call_gpt s w (answer_system_prompt s) user_message 5) (\<lambda>response.
     ret (loads_or lib response answer_fallback)))"

section \<open>Speech synthesis\<close>

definition voice_map :: "(pystr \<times> pystr) list" where
  "voice_map =
     [(py ''Spanish'', py ''pNInz6obpgDQGcFmaJgB''),
      (py ''French'', py ''pNInz6obpgDQGcFmaJgB''),
      (py ''German'', py ''pNInz6obpgDQGcFmaJgB''),
      (py ''Italian'', py ''pNInz6obpgDQGcFmaJgB''),
      (py ''Portuguese'', py ''pNInz6obpgDQGcFmaJgB''),
      (py ''Chinese'', py ''pNInz6obpgDQGcFmaJgB''),
      (py ''Japanese'', py ''pNInz6obpgDQGcFmaJgB''),
      (py ''Korean'', py ''pNInz6obpgDQGcFmaJgB''),
      (py ''Arabic'', py ''pNInz6obpgDQGcFmaJgB''),
      (py ''Hebrew'', py ''pNInz6obpgDQGcFmaJgB'')]"

text \<open>\<^verbatim>\<open>voice_map.get(self.target_language, "pNInz6obpgDQGcFmaJgB")\<close>\<close>

definition voice_id :: "pystr \<Rightarrow> pystr" where
  "voice_id language =
     (case map_of voice_map language of
        Some v \<Rightarrow> v
      | None \<Rightarrow> py ''pNInz6obpgDQGcFmaJgB'')"

text \<open>\<^verbatim>\<open>if self.elevenlabs_key\<close>: neither \<^verbatim>\<open>None\<close> nor the empty string.\<close>

definition key_given :: "bls \<Rightarrow> bool" where
  "key_given s = (case elevenlabs_key s of None \<Rightarrow> False | Some k \<Rightarrow> k \<noteq> [])"

text \<open>
  The result is the path of the audio file, or \<open>None\<close>. An exception of the request or
  of the file write is caught by the \<^verbatim>\<open>except Exception\<close>; what is printed is left out.
\<close>

definition agent_tts_generator :: "bls \<Rightarrow> world \<Rightarrow> json \<Rightarrow> pystr option res" where
  "agent_tts_generator s w reading_text =
     (case elevenlabs_key s of
        None \<Rightarrow> ret None
      | Some k \<Rightarrow>
          if k = [] then ret None
          else
            (let url = py ''https://api.elevenlabs.io/v1/text-to-speech/'' @ voice_id (target_language s)
             in bnd (Inr (requests_post w url k reading_text), [HttpPost url k reading_text])
                  (\<lambda>response.
                     case response of
                       RequestException \<Rightarrow> ret None
                     | Response status_code body \<Rightarrow>
                         if status_code = 200 then
                           (let audio_path = path_join w (gettempdir w)
                                  (py ''reading_audio_'' @ audio_stamp w @ py ''.mp3'')
                            in (Inr (if file_write_ok w audio_path then Some audio_path else None),
                                [FileWrite audio_path]))
                         else ret None)))"

section \<open>Rendering\<close>

text \<open>
  \<^verbatim>\<open>", ".join(xs)\<close> for the elements of a list value: every element has to be a string,
  \<^verbatim>\<open>TypeError\<close> otherwise.
\<close>

fun strs_of :: "json list \<Rightarrow> py_error + pystr list" where
  "strs_of [] = Inr []"
| "strs_of (JStr t # xs) = then_do (strs_of xs) (\<lambda>ts. Inr (t # ts))"
| "strs_of (_ # xs) = Inl TypeError"

definition join_list :: "pystr \<Rightarrow> json list \<Rightarrow> py_error + pystr" where
  "join_list sep xs = then_do (strs_of xs) (\<lambda>ts. Inr (py_join sep ts))"

text \<open>\<^verbatim>\<open>_add_exercises\<close>: the flowables it appends.\<close>

definition exercise_question :: "pylib \<Rightarrow> json \<Rightarrow> json" where
  "exercise_question lib ex =
     (case ex of
        JObj d \<Rightarrow> (case map_of d (py ''question'') of
                     Some q \<Rightarrow> q
                   | None \<Rightarrow> JStr (py_str lib ex))
      | _ \<Rightarrow> JStr (py_str lib ex))"

definition add_exercises :: "pylib \<Rightarrow> pystr \<Rightarrow> json \<Rightarrow> flowable list" where
  "add_exercises lib title exercises =
     [Paragraph (JStr title) Heading2, Spacer 1 10]
     @ (case exercises of
          JArr xs \<Rightarrow>
            concat (map (\<lambda>(i, ex).
              [Paragraph (JStr (str_nat i @ py ''. '' @ py_str lib (exercise_question lib ex))) BodyText,
               Spacer 1 15]) (enumerate 1 xs))
        | _ \<Rightarrow> [])
     @ [Spacer 1 30]"

text \<open>\<^verbatim>\<open>_add_answers\<close>\<close>

definition answer_text :: "pylib \<Rightarrow> nat \<Rightarrow> json \<Rightarrow> pystr" where
  "answer_text lib i ans =
     (case ans of
        JObj d \<Rightarrow>
          (let answer = (case map_of d (py ''answer'') of Some a \<Rightarrow> a | None \<Rightarrow> JStr []);
               explanation = (case map_of d (py ''explanation'') of Some e \<Rightarrow> e | None \<Rightarrow> JStr []);
               text = str_nat i @ py ''. <b>'' @ py_str lib answer @ py ''</b>''
           in if truthy explanation
              then text @ py '' <i>('' @ py_str lib explanation @ py '')</i>''
              else text)
      | _ \<Rightarrow> str_nat i @ py ''. '' @ py_str lib ans)"

definition add_answers :: "pylib \<Rightarrow> pystr \<Rightarrow> json \<Rightarrow> flowable list" where
  "add_answers lib title answers =
     [Paragraph (JStr (py ''<b>'' @ title @ py ''</b>'')) Heading3, Spacer 1 10]
     @ (case answers of
          JArr xs \<Rightarrow>
            concat (map (\<lambda>(i, ans).
              [Paragraph (JStr (answer_text lib i ans)) BodyText, Spacer 1 10]) (enumerate 1 xs))
        | _ \<Rightarrow> [])
     @ [Spacer 1 20]"

text \<open>
  \<^verbatim>\<open>generate_pdf\<close>. The result is the path of the file; the \<open>BuildPdf\<close> call carries the
  elements given to \<^verbatim>\<open>doc.build\<close>, the layout library's own work.
\<close>

definition generate_pdf :: "bls \<Rightarrow> pylib \<Rightarrow> world \<Rightarrow> json \<Rightarrow> pystr option \<Rightarrow> pystr res" where
  "generate_pdf s lib w lesson_content filename =
     (let fname = (case filename of
                     None \<Rightarrow> py ''bible_lesson_'' @ pdf_stamp w @ py ''.pdf''
                   | Some f \<Rightarrow> f);
          filepath = path_join w (gettempdir w) fname;
          title = py ''Bible Language Learning Lesson<br/>'' @ target_language s
      in
      bnd (lift (py_get lesson_content (py ''level'') (JStr (py ''B1'')))) (\<lambda>level.
      bnd (lift (py_get lesson_content (py ''verse_data'') (JObj []))) (\<lambda>verse_data.
      bnd (lift (py_get verse_data (py ''verse_reference'') (JStr (py ''N/A'')))) (\<lambda>verse_ref.
      bnd (lift (py_get verse_data (py ''verse_text_'' @ lang_lower s lib) (JStr (py ''N/A'')))) (\<lambda>verse_text.
      bnd (lift (py_get verse_data (py ''meditation_'' @ lang_lower s lib) (JStr []))) (\<lambda>meditation.
      bnd (lift (py_get lesson_content (py ''reading_data'') (JObj []))) (\<lambda>reading_data.
      bnd (lift (py_get reading_data (py ''reading_text_'' @ lang_lower s lib) (JStr (py ''N/A'')))) (\<lambda>reading_text.
      bnd (lift (py_get lesson_content (py ''audio_path'') JNull)) (\<lambda>audio_path.
      bnd (lift (py_get reading_data (py ''key_vocabulary'') (JArr []))) (\<lambda>vocab.
      bnd (lift (if truthy vocab
                 then (case vocab of
                         JArr xs \<Rightarrow> join_list (py '', '') xs
                       | _ \<Rightarrow> Inr (py_str lib vocab))
                 else Inr [])) (\<lambda>vocab_text.
      bnd (lift (py_get lesson_content (py ''lesson_data'') (JObj []))) (\<lambda>lesson_data.
      bnd (lift (py_get lesson_data (py ''reading_exercises'') (JArr []))) (\<lambda>reading_exercises.
      bnd (lift (py_get lesson_data (py ''writing_exercises'') (JArr []))) (\<lambda>writing_exercises.
      bnd (lift (py_get lesson_data (py ''listening_exercises'') (JArr []))) (\<lambda>listening_exercises.
      bnd (lift (py_get lesson_data (py ''speaking_exercises'') (JArr []))) (\<lambda>speaking_exercises.
      bnd (lift (py_get lesson_data (py ''filling_exercises'') (JArr []))) (\<lambda>filling_exercises.
      bnd (lift (py_get lesson_content (py ''answers'') (JObj []))) (\<lambda>answers.
      bnd (lift (py_get answers (py ''reading_exercises'') (JArr []))) (\<lambda>reading_answers.
      bnd (lift (py_get answers (py ''writing_exercises'') (JArr []))) (\<lambda>writing_answers.
      bnd (lift (py_get answers (py ''listening_exercises'') (JArr []))) (\<lambda>listening_answers.
      bnd (lift (py_get answers (py ''speaking_exercises'') (JArr []))) (\<lambda>speaking_answers.
      bnd (lift (py_get answers (py ''filling_exercises'') (JArr []))) (\<lambda>filling_answers.
      (let elements =
         [Paragraph (JStr title) CustomTitle,
          Spacer 1 20,
          Paragraph (JStr (py ''Date: '' @ pdf_date w @ py ''<br/>Level: '' @ py_str lib level)) BodyText,
          Spacer 1 30,
          Paragraph (JStr ([63743, 252, 236, 241] @ py '' Verse of the Day'')) Heading2,
          Spacer 1 10,
          Paragraph (JStr (py ''<b>'' @ py_str lib verse_ref @ py ''</b>'')) BodyText,
          Paragraph (JStr (py ''<i>'' @ py_str lib verse_text @ py ''</i>'')) BodyText,
          Spacer 1 20]
         @ (if truthy meditation
            then [Paragraph (JStr (py ''<b>Meditation:</b> '' @ py_str lib meditation)) BodyText,
                  Spacer 1 30]
            else [])
         @ [Paragraph (JStr ([63743, 252, 236, 246] @ py '' Reading Comprehension'')) Heading2,
            Spacer 1 10,
            Paragraph reading_text BodyText,
            Spacer 1 30]
         @ (if truthy audio_path
            then [Paragraph (JStr (py ''<b>'' @ [63743, 252, 238, 228]
                    @ py '' Audio available for listening exercise</b>'')) BodyText,
                  Spacer 1 20]
            else [])
         @ (if truthy vocab
            then [Paragraph (JStr (py ''<b>Key Vocabulary:</b>'')) BodyText,
                  Paragraph (JStr vocab_text) BodyText,
                  Spacer 1 30]
            else [])
         @ [PageBreak]
         @ add_exercises lib ([63743, 252, 236, 241] @ py '' Reading Exercises'') reading_exercises
         @ add_exercises lib ([8218, 250, 231, 212, 8719, 232] @ py '' Writing Exercises'') writing_exercises
         @ add_exercises lib ([63743, 252, 235, 199] @ py '' Listening Exercises'') listening_exercises
         @ add_exercises lib ([63743, 252, 243, 163, 212, 8719, 232] @ py '' Speaking Exercises'') speaking_exercises
         @ add_exercises lib ([8218, 250, 232, 212, 8719, 232] @ py '' Fill-in-the-Blank Exercises'') filling_exercises
         @ [PageBreak]
         @ [Paragraph (JStr ([8218, 250, 214] @ py '' Answer Key'')) Heading2,
            Spacer 1 20]
         @ add_answers lib (py ''Reading Answers'') reading_answers
         @ add_answers lib (py ''Writing Answers'') writing_answers
         @ add_answers lib (py ''Listening Answers'') listening_answers
         @ add_answers lib (py ''Speaking Answers'') speaking_answers
         @ add_answers lib (py ''Fill-in-the-Blank Answers'') filling_answers
       in (Inr filepath, [BuildPdf filepath elements])))))))))))))))))))))))))"

section \<open>The display formatter\<close>



text \<open>
  \<^verbatim>\<open>[k for k in verse_data.keys() if k.startswith('verse_text_') and k != 'verse_text_english']\<close>
  and the three keys derived from it (lines 460-463).
\<close>

definition lang_keys :: "(pystr \<times> json) list \<Rightarrow> pystr list" where
  "lang_keys d =
     filter (\<lambda>k. startswith k (py ''verse_text_'') \<and> k \<noteq> py ''verse_text_english'') (map fst d)"

definition verse_lang_key :: "(pystr \<times> json) list \<Rightarrow> pystr" where
  "verse_lang_key d = (case lang_keys d of [] \<Rightarrow> py ''verse_text_english'' | k # ks \<Rightarrow> k)"






text \<open>The three texts the head of the display shows, and the vocabulary line.\<close>

definition display_verse :: "(pystr \<times> json) list \<Rightarrow> json" where
  "display_verse d =
     (case map_of d (verse_lang_key d) of
        Some v \<Rightarrow> v
      | None \<Rightarrow> (case map_of d (py ''verse_text_english'') of
                   Some v \<Rightarrow> v
                 | None \<Rightarrow> JStr (py ''N/A'')))"





section \<open>The pipeline\<close>

text \<open>
  \<^verbatim>\<open>run_full_lesson_generation\<close>; the progress notifications are left out. The result
  is \<^verbatim>\<open>(lesson_content, pdf_path, audio_path)\<close>.
\<close>

definition audio_step :: "bls \<Rightarrow> pylib \<Rightarrow> world \<Rightarrow> json \<Rightarrow> pystr option res" where
  "audio_step s lib w reading_data =
     (if key_given s then
        bnd (lift (py_get reading_data (py ''reading_text_'' @ lang_lower s lib) (JStr []))) (\<lambda>reading_text.
        if truthy reading_text then agent_tts_generator s w reading_text else ret None)
      else ret None)"

definition lesson_content_of :: "pystr \<Rightarrow> json \<Rightarrow> json \<Rightarrow> json \<Rightarrow> json \<Rightarrow> pystr option \<Rightarrow> json" where
  "lesson_content_of language_level verse_data reading_data lesson_data answers audio_path =
     JObj (mk_dict
       [(py ''level'', JStr language_level),
        (py ''verse_data'', verse_data),
        (py ''reading_data'', reading_data),
        (py ''lesson_data'', lesson_data),
        (py ''answers'', answers),
        (py ''audio_path'', (case audio_path of None \<Rightarrow> JNull | Some p \<Rightarrow> JStr p))])"

definition run_full_lesson_generation ::
  "bls \<Rightarrow> pylib \<Rightarrow> world \<Rightarrow> pystr \<Rightarrow> (json \<times> pystr \<times> pystr option) res" where
  "run_full_lesson_generation s lib w language_level =
     bnd (agent_verse_retriever s lib w language_level) (\<lambda>verse_data.
     bnd (agent_content_creator s lib w verse_data language_level) (\<lambda>reading_data.
     bnd (agent_lesson_designer s lib w verse_data reading_data language_level) (\<lambda>lesson_data.
     bnd (agent_answer_key_generator s lib w lesson_data verse_data reading_data) (\<lambda>answers.
     bnd (audio_step s lib w reading_data) (\<lambda>audio_path.
     (let lesson_content =
            lesson_content_of language_level verse_data reading_data lesson_data answers audio_path
      in bnd (generate_pdf s lib w lesson_content None) (\<lambda>pdf_path.
         ret (lesson_content, pdf_path, audio_path))))))))"

section \<open>Notions the properties are stated with\<close>

subsection \<open>The raw response of a stage\<close>

text \<open>
  The text a stage receives from its generation call. Stages 2 to 4 read the earlier
  records while they build the user message; \<open>None\<close> says that this raised, so that no
  call was made.
\<close>

definition verse_response :: "bls \<Rightarrow> pylib \<Rightarrow> world \<Rightarrow> pystr \<Rightarrow> pystr" where
  "verse_response s lib w language_level =
     gpt_text s w (verse_system_prompt s lib language_level) (verse_user_message s language_level) 7"

definition reading_response :: "bls \<Rightarrow> pylib \<Rightarrow> world \<Rightarrow> json \<Rightarrow> pystr \<Rightarrow> pystr option" where
  "reading_response s lib w verse_data language_level =
     (case fst (reading_user_message s lib verse_data) of
        Inl e \<Rightarrow> None
      | Inr user_message \<Rightarrow>
          Some (gpt_text s w (reading_system_prompt s lib language_level) user_message 8))"

definition lesson_response :: "bls \<Rightarrow> pylib \<Rightarrow> world \<Rightarrow> json \<Rightarrow> json \<Rightarrow> pystr \<Rightarrow> pystr option" where
  "lesson_response s lib w verse_data reading_data language_level =
     (case fst (lesson_user_message s lib verse_data reading_data) of
        Inl e \<Rightarrow> None
      | Inr user_message \<Rightarrow>
          Some (gpt_text s w (lesson_system_prompt s language_level) user_message 7))"

definition answer_response :: "bls \<Rightarrow> pylib \<Rightarrow> world \<Rightarrow> json \<Rightarrow> json \<Rightarrow> pystr option" where
  "answer_response s lib w lesson_data reading_data =
     (case fst (answer_user_message s lib lesson_data reading_data) of
        Inl e \<Rightarrow> None
      | Inr user_message \<Rightarrow>
          Some (gpt_text s w (answer_system_prompt s) user_message 5))"

subsection \<open>Kinds of calls\<close>

text \<open>The calls of the generation stages, and the call of the renderer.\<close>

fun is_chat :: "call \<Rightarrow> bool" where
  "is_chat (ChatCompletion m sp um t) = True"
| "is_chat _ = False"

fun is_build :: "call \<Rightarrow> bool" where
  "is_build (BuildPdf p es) = True"
| "is_build _ = False"

subsection \<open>Fenced blocks\<close>

text \<open>\<^verbatim>\<open>s.find(sub)\<close>: where the first occurrence of \<open>sub\<close> starts.\<close>

fun find_sub :: "pystr \<Rightarrow> pystr \<Rightarrow> nat option" where
  "find_sub sub [] = (if sub = [] then Some 0 else None)"
| "find_sub sub (c # cs) =
     (if startswith (c # cs) sub then Some 0 else map_option Suc (find_sub sub cs))"

text \<open>The part of \<open>s\<close> before the first \<open>sep\<close>, all of \<open>s\<close> when there is none.\<close>

definition before :: "pystr \<Rightarrow> pystr \<Rightarrow> pystr" where
  "before sep s = (case find_sub sep s of None \<Rightarrow> s | Some i \<Rightarrow> take i s)"

text \<open>
  The fenced block of a response, read as the specification words it: the text between
  the first \<open>opening\<close> delimiter and the next \<open>closing\<close> delimiter after it, together
  with what follows that closing delimiter. \<open>None\<close> when a delimiter is missing.
\<close>

definition fenced_block :: "pystr \<Rightarrow> pystr \<Rightarrow> pystr \<Rightarrow> (pystr \<times> pystr) option" where
  "fenced_block opening closing response =
     (case find_sub opening response of
        None \<Rightarrow> None
      | Some i \<Rightarrow>
          (let rest = drop (i + length opening) response
           in case find_sub closing rest of
                None \<Rightarrow> None
              | Some j \<Rightarrow> Some (take j rest, drop (j + length closing) rest)))"

subsection \<open>A concrete environment for the closed examples\<close>

text \<open>
  The functions below stand for the library in the closed examples only. Each agrees
  with CPython on the values the examples give it: \<open>ascii_lower\<close> on ASCII text,
  \<open>loads_sample\<close> on the two documents it knows and on text that is no JSON,
  \<open>repr_sample\<close> and \<open>dumps_sample\<close> on values without floats whose strings are
  printable and hold neither a quote nor a backslash.
\<close>

definition ascii_lower :: "pystr \<Rightarrow> pystr" where
  "ascii_lower t = map (\<lambda>c. if 65 \<le> c \<and> c \<le> 90 then c + 32 else c) t"

definition loads_sample :: "pystr \<Rightarrow> json option" where
  "loads_sample t =
     (if t = py ''{}'' then Some (JObj [])
      else if t = py ''[]'' then Some (JArr [])
      else None)"

definition str_int :: "int \<Rightarrow> pystr" where
  "str_int i = (if i < 0 then py ''-'' @ str_nat (nat (- i)) else str_nat (nat i))"

fun repr_sample :: "json \<Rightarrow> pystr" where
  "repr_sample JNull = py ''None''"
| "repr_sample (JBool b) = (if b then py ''True'' else py ''False'')"
| "repr_sample (JInt i) = str_int i"
| "repr_sample (JFloat t) = t"
| "repr_sample (JStr t) = [39] @ t @ [39]"
| "repr_sample (JArr xs) = py ''['' @ py_join (py '', '') (map repr_sample xs) @ py '']''"
| "repr_sample (JObj d) =
     py ''{'' @ py_join (py '', '') (map (\<lambda>(k, v). [39] @ k @ [39] @ py '': '' @ repr_sample v) d) @ py ''}''"

fun dumps_sample :: "json \<Rightarrow> pystr" where
  "dumps_sample JNull = py ''null''"
| "dumps_sample (JBool b) = (if b then py ''true'' else py ''false'')"
| "dumps_sample (JInt i) = str_int i"
| "dumps_sample (JFloat t) = t"
| "dumps_sample (JStr t) = [34] @ t @ [34]"
| "dumps_sample (JArr xs) = py ''['' @ py_join (py '', '') (map dumps_sample xs) @ py '']''"
| "dumps_sample (JObj d) =
     py ''{'' @ py_join (py '', '') (map (\<lambda>(k, v). [34] @ k @ [34] @ py '': '' @ dumps_sample v) d) @ py ''}''"

definition sample_lib :: pylib where
  "sample_lib =
     \<lparr>json_loads = loads_sample, json_dumps = dumps_sample, py_repr = repr_sample,
      str_lower = ascii_lower\<rparr>"

definition spanish_system :: bls where
  "spanish_system =
     \<lparr>model = py ''gpt-4o-mini'', target_language = py ''Spanish'', elevenlabs_key = None\<rparr>"

text \<open>
  A world whose chat service answers every request with the text \<open>r\<close>, and whose
  speech service and file system succeed.
\<close>

definition answering :: "pystr \<Rightarrow> world" where
  "answering r =
     \<lparr>chat_create = (\<lambda>model system_prompt user_message temperature. Inr r),
      requests_post = (\<lambda>url k text. Response 200 []),
      file_write_ok = (\<lambda>path. True),
      gettempdir = py ''/tmp'',
      path_join = (\<lambda>a b. a @ py ''/'' @ b),
      audio_stamp = py ''20240101_120000'',
      pdf_stamp = py ''20240101_120001'',
      pdf_date = py ''January 01, 2024''\<rparr>"

section \<open>Searching and splitting\<close>

lemma startswith_iff: "startswith s p \<longleftrightarrow> take (length p) s = p"
  by (induction s p rule: startswith.induct) auto

lemma startswith_append [simp]: "startswith (p @ t) p"
  by (simp add: startswith_iff)

lemma contains_find: "contains sub s \<longleftrightarrow> find_sub sub s \<noteq> None"
  by (induction s) auto

lemma find_sub_Some:
  "find_sub sub s = Some i \<Longrightarrow>
     i \<le> length s \<and> startswith (drop i s) sub \<and> (\<forall>k<i. \<not> startswith (drop k s) sub)"
proof (induction s arbitrary: i)
  case Nil
  then show ?case by (auto split: if_splits)
next
  case (Cons c cs)
  show ?case
  proof (cases "startswith (c # cs) sub")
    case True
    with Cons.prems show ?thesis by simp
  next
    case False
    with Cons.prems obtain j where j: "find_sub sub cs = Some j" "i = Suc j" by auto
    from Cons.IH [OF j(1)] False j(2) show ?thesis
      by (auto simp: less_Suc_eq_0_disj)
  qed
qed

lemma find_sub_None:
  "find_sub sub s = None \<Longrightarrow> k \<le> length s \<Longrightarrow> \<not> startswith (drop k s) sub"
proof (induction s arbitrary: k)
  case Nil
  then show ?case by (cases sub) (auto split: if_splits)
next
  case (Cons c cs)
  then show ?case by (cases k) (auto split: if_splits)
qed

lemma find_sub_first:
  "i \<le> length s \<Longrightarrow> startswith (drop i s) sub \<Longrightarrow> (\<forall>k<i. \<not> startswith (drop k s) sub) \<Longrightarrow>
     find_sub sub s = Some i"
proof (induction s arbitrary: i)
  case Nil
  then show ?case by (cases sub) auto
next
  case (Cons c cs)
  show ?case
  proof (cases i)
    case 0
    with Cons.prems show ?thesis by simp
  next
    case (Suc j)
    with Cons.prems have "\<not> startswith (c # cs) sub" by (metis drop0 zero_less_Suc)
    moreover have "find_sub sub cs = Some j"
    proof (rule Cons.IH)
      show "j \<le> length cs" using Cons.prems Suc by simp
      show "startswith (drop j cs) sub" using Cons.prems Suc by simp
      show "\<forall>k<j. \<not> startswith (drop k cs) sub"
      proof (intro allI impI)
        fix k assume "k < j"
        then have "Suc k < i" using Suc by simp
        with Cons.prems(3) have "\<not> startswith (drop (Suc k) (c # cs)) sub" by blast
        then show "\<not> startswith (drop k cs) sub" by simp
      qed
    qed
    ultimately show ?thesis using Suc by simp
  qed
qed

lemma split_from_Some:
  "sep \<noteq> [] \<Longrightarrow> find_sub sep s = Some i \<Longrightarrow>
     split_from sep acc s = (rev acc @ take i s) # split_from sep [] (drop (i + length sep) s)"
proof (induction s arbitrary: acc i)
  case Nil
  then show ?case by (auto split: if_splits)
next
  case (Cons c cs)
  show ?case
  proof (cases "startswith (c # cs) sep")
    case True
    with Cons.prems show ?thesis by (subst split_from.simps) simp
  next
    case False
    with Cons.prems obtain j where j: "find_sub sep cs = Some j" "i = Suc j" by auto
    from Cons.IH [OF Cons.prems(1) j(1), of "c # acc"] False Cons.prems(1) j(2) show ?thesis
      by (subst split_from.simps) simp
  qed
qed

lemma split_from_None:
  "sep \<noteq> [] \<Longrightarrow> find_sub sep s = None \<Longrightarrow> split_from sep acc s = [rev acc @ s]"
proof (induction s arbitrary: acc)
  case Nil
  then show ?case by (subst split_from.simps) (cases sep; simp)
next
  case (Cons c cs)
  then show ?case by (subst split_from.simps) (auto split: if_splits)
qed

lemma split_head:
  "sep \<noteq> [] \<Longrightarrow> py_index (py_split sep s) 0 = Inr (before sep s)"
  by (cases "find_sub sep s")
     (simp_all add: py_index_def py_split_def before_def split_from_Some split_from_None)

lemma split_second:
  "sep \<noteq> [] \<Longrightarrow> find_sub sep s = Some i \<Longrightarrow>
     py_index (py_split sep s) 1 = Inr (before sep (drop (i + length sep) s))"
  by (cases "find_sub sep (drop (i + length sep) s)")
     (simp_all add: py_index_def py_split_def before_def split_from_Some split_from_None)


lemma find_sub_NoneI:
  "(\<forall>k\<le>length s. \<not> startswith (drop k s) sub) \<Longrightarrow> find_sub sub s = None"
proof (cases "find_sub sub s")
  case None
  then show ?thesis .
next
  case (Some i)
  from find_sub_Some [OF Some] show "(\<forall>k\<le>length s. \<not> startswith (drop k s) sub) \<Longrightarrow> ?thesis"
    by blast
qed

lemma startswith_takeD:
  assumes "startswith (take n t) p"
  shows "startswith t p" and "length p \<le> n"
proof -
  from assms have eq: "take (length p) (take n t) = p" by (simp add: startswith_iff)
  then have "length (take (length p) (take n t)) = length p" by simp
  then have le: "length p \<le> n" "length p \<le> length t" by (simp_all add: min_def split: if_splits)
  then show "length p \<le> n" by simp
  from eq le show "startswith t p" by (simp add: startswith_iff min_def)
qed

lemma startswith_takeI:
  "startswith t p \<Longrightarrow> length p \<le> n \<Longrightarrow> startswith (take n t) p"
  by (simp add: startswith_iff min_def)

lemma find_sub_take_Some:
  assumes "find_sub p s = Some j" and "j + length p \<le> q"
  shows "find_sub p (take q s) = Some j"
proof (rule find_sub_first)
  note f = find_sub_Some [OF assms(1)]
  show "j \<le> length (take q s)" using f assms(2) by simp
  show "startswith (drop j (take q s)) p"
    using f assms(2) by (simp add: drop_take startswith_takeI)
  show "\<forall>k<j. \<not> startswith (drop k (take q s)) p"
    using f by (auto simp: drop_take dest: startswith_takeD(1))
qed

lemma find_sub_take_None:
  assumes "p \<noteq> []" and "find_sub p s = Some j" and "q < j + length p"
  shows "find_sub p (take q s) = None"
proof (rule find_sub_NoneI, intro allI impI notI)
  fix k
  assume k: "k \<le> length (take q s)" and sw: "startswith (drop k (take q s)) p"
  from sw have "startswith (take (q - k) (drop k s)) p" by (simp add: drop_take)
  from startswith_takeD [OF this] have 1: "startswith (drop k s) p" and 2: "length p \<le> q - k" .
  from 2 assms(1) have "k + length p \<le> q" by (cases p) auto
  with assms(3) have "k < j" by simp
  with find_sub_Some [OF assms(2)] 1 show False by blast
qed

lemma find_sub_take_None':
  assumes "p \<noteq> []" and "find_sub p s = None"
  shows "find_sub p (take q s) = None"
proof (rule find_sub_NoneI, intro allI impI notI)
  fix k
  assume k: "k \<le> length (take q s)" and sw: "startswith (drop k (take q s)) p"
  from sw have "startswith (take (q - k) (drop k s)) p" by (simp add: drop_take)
  from startswith_takeD(1) [OF this] have "startswith (drop k s) p" .
  moreover from k have "k \<le> length s" by simp
  ultimately show False using find_sub_None [OF assms(2)] by blast
qed

lemma before_no_sep: "sep \<noteq> [] \<Longrightarrow> find_sub sep (before sep s) = None"
  by (cases "find_sub sep s") (auto simp: before_def intro: find_sub_take_None)

lemma before_before: "sep \<noteq> [] \<Longrightarrow> before sep (before sep s) = before sep s"
  using before_no_sep [of sep s] by (simp add: before_def [of sep "before sep s"])

lemma fence_simps: "fence = [96, 96, 96]" "fence_json = [96, 96, 96, 106, 115, 111, 110]"
  by (simp_all add: fence_def fence_json_def py_def)

lemma startswith_appendD: "startswith t (p @ q) \<Longrightarrow> startswith t p"
  by (induction t p rule: startswith.induct) auto

lemma fence_json_eq: "fence_json = fence @ py ''json''"
  by (simp add: fence_def fence_json_def py_def)

lemma startswith_fence_json: "startswith t fence_json \<Longrightarrow> startswith t fence"
  by (simp add: fence_json_eq startswith_appendD)

lemma find_fence_json_imp:
  assumes "find_sub fence_json t = Some q"
  obtains j where "find_sub fence t = Some j" and "j \<le> q"
proof -
  note f = find_sub_Some [OF assms]
  then have sw: "startswith (drop q t) fence" by (simp add: startswith_fence_json)
  show ?thesis
  proof (cases "find_sub fence t")
    case None
    from find_sub_None [OF None, of q] f sw show ?thesis by simp
  next
    case (Some j)
    from find_sub_Some [OF Some] sw have "\<not> q < j" by blast
    with Some that show ?thesis by simp
  qed
qed

lemma fence_length: "length fence = 3" "length fence_json = 7" "fence \<noteq> []" "fence_json \<noteq> []"
  by (simp_all add: fence_simps)

lemma extract_json_branch:
  assumes "find_sub fence_json r = Some i"
  shows "extract_json_str r =
    Inr (py_strip (before fence (before fence_json (drop (i + length fence_json) r))))"
proof -
  have c: "contains fence_json r" using assms by (simp add: contains_find)
  show ?thesis
    unfolding extract_json_str_def
    using c split_second [OF fence_length(4) assms] split_head [OF fence_length(3)]
    by (simp add: then_do_def)
qed

lemma extract_fence_branch:
  assumes "find_sub fence_json r = None" and "find_sub fence r = Some i"
  shows "extract_json_str r = Inr (py_strip (before fence (drop (i + length fence) r)))"
proof -
  have c: "\<not> contains fence_json r" "contains fence r" using assms by (simp_all add: contains_find)
  show ?thesis
    unfolding extract_json_str_def
    using c split_second [OF fence_length(3) assms(2)] split_head [OF fence_length(3)]
    by (simp add: then_do_def before_before fence_length(3))
qed

lemma extract_plain:
  assumes "find_sub fence r = None"
  shows "extract_json_str r = Inr (py_strip r)"
proof -
  have "find_sub fence_json r = None"
  proof (cases "find_sub fence_json r")
    case (Some q)
    from find_fence_json_imp [OF Some] assms show ?thesis by auto
  qed simp
  with assms show ?thesis by (simp add: extract_json_str_def contains_find)
qed

lemma extract_never_raises: "\<exists>t. extract_json_str r = Inr t"
proof (cases "find_sub fence_json r")
  case None
  then show ?thesis
    by (cases "find_sub fence r") (auto simp: extract_plain extract_fence_branch)
next
  case (Some i)
  then show ?thesis by (simp add: extract_json_branch)
qed

lemma fenced_blockD:
  assumes "fenced_block opening closing r = Some (t, rest)"
  obtains i j where "find_sub opening r = Some i"
    and "find_sub closing (drop (i + length opening) r) = Some j"
    and "t = take j (drop (i + length opening) r)"
    and "rest = drop (j + length closing) (drop (i + length opening) r)"
proof -
  from assms obtain i where i: "find_sub opening r = Some i"
    by (cases "find_sub opening r") (simp_all add: fenced_block_def)
  with assms obtain j where j: "find_sub closing (drop (i + length opening) r) = Some j"
    by (cases "find_sub closing (drop (i + length opening) r)") (simp_all add: fenced_block_def)
  from assms i j have "t = take j (drop (i + length opening) r)"
    and "rest = drop (j + length closing) (drop (i + length opening) r)"
    by (simp_all add: fenced_block_def)
  with i j that show ?thesis by blast
qed

lemma drop_at_fence:
  assumes "find_sub fence R = Some j"
  shows "drop j R = fence @ drop (j + length fence) R"
proof -
  from find_sub_Some [OF assms] have "take (length fence) (drop j R) = fence"
    by (simp add: startswith_iff)
  then have "drop j R = fence @ drop (length fence) (drop j R)"
    by (metis append_take_drop_id)
  then show ?thesis by (simp add: add.commute)
qed

lemma json_block_cut:
  assumes j: "find_sub fence R = Some j"
    and n1: "\<not> startswith (drop (j + length fence) R) (py ''`json'')"
    and n2: "\<not> startswith (drop (j + length fence) R) (py ''``json'')"
  shows "before fence (before fence_json R) = take j R"
proof (cases "find_sub fence_json R")
  case None
  with j show ?thesis by (simp add: before_def)
next
  case (Some q)
  from find_fence_json_imp [OF Some] j have jq: "j \<le> q" by auto
  note fq = find_sub_Some [OF Some]
  define X where "X = drop (j + length fence) R"
  have n1': "\<not> startswith X (py ''`json'')" and n2': "\<not> startswith X (py ''``json'')"
    using n1 n2 by (simp_all add: X_def)
  have d: "drop j R = [96, 96, 96] @ X"
    using drop_at_fence [OF j] by (simp add: X_def fence_simps)
  have d1: "drop (Suc j) R = [96, 96] @ X"
  proof -
    have "drop (Suc j) R = drop (Suc 0) (drop j R)" by simp
    then show ?thesis by (simp add: d)
  qed
  have d2: "drop (Suc (Suc j)) R = [96] @ X"
  proof -
    have "drop (Suc (Suc j)) R = drop (Suc 0) (drop (Suc j) R)" by simp
    then show ?thesis by (simp add: d1)
  qed
  have "q \<noteq> Suc j"
  proof
    assume "q = Suc j"
    with fq have "startswith (drop (Suc j) R) fence_json" by simp
    with n1' show False by (simp add: d1 fence_simps py_def)
  qed
  moreover have "q \<noteq> Suc (Suc j)"
  proof
    assume "q = Suc (Suc j)"
    with fq have "startswith (drop (Suc (Suc j)) R) fence_json" by simp
    with n2' show False by (simp add: d2 fence_simps py_def)
  qed
  ultimately consider "q = j" | "j + length fence \<le> q" using jq by (simp add: fence_length) linarith
  then show ?thesis
  proof cases
    case 1
    have "find_sub fence (take j R) = None"
      by (rule find_sub_take_None [OF _ j]) (simp_all add: fence_length)
    with Some 1 show ?thesis by (simp add: before_def)
  next
    case 2
    then have "find_sub fence (take q R) = Some j"
      by (intro find_sub_take_Some [OF j])
    moreover have "j \<le> q" by (rule jq)
    ultimately show ?thesis using Some by (simp add: before_def min_def)
  qed
qed

lemma json_block_text:
  assumes "fenced_block fence_json fence r = Some (t, rest)"
    and "\<not> startswith rest (py ''`json'')" and "\<not> startswith rest (py ''``json'')"
  shows "extract_json_str r = Inr (py_strip t)"
proof -
  from assms(1) obtain i j where i: "find_sub fence_json r = Some i"
    and j: "find_sub fence (drop (i + length fence_json) r) = Some j"
    and t: "t = take j (drop (i + length fence_json) r)"
    and rest: "rest = drop (j + length fence) (drop (i + length fence_json) r)"
    by (rule fenced_blockD)
  from json_block_cut [OF j] assms(2,3)
  have "before fence (before fence_json (drop (i + length fence_json) r)) = t"
    unfolding rest t by simp
  with extract_json_branch [OF i] show ?thesis by simp
qed

lemma generic_block_text:
  assumes "\<not> contains fence_json r" and "fenced_block fence fence r = Some (t, rest)"
  shows "extract_json_str r = Inr (py_strip t)"
proof -
  from assms(2) obtain i j where i: "find_sub fence r = Some i"
    and j: "find_sub fence (drop (i + length fence) r) = Some j"
    and t: "t = take j (drop (i + length fence) r)"
    by (rule fenced_blockD)
  from assms(1) have "find_sub fence_json r = None" by (simp add: contains_find)
  from extract_fence_branch [OF this i] j t show ?thesis by (simp add: before_def)
qed

lemma no_fence_text:
  assumes "\<not> contains fence r"
  shows "extract_json_str r = Inr (py_strip r)"
  using assms by (simp add: contains_find extract_plain)

section \<open>What a stage returns on a response\<close>

lemma verse_stage_result:
  "fst (agent_verse_retriever s lib w lvl) =
     Inr (loads_or lib (verse_response s lib w lvl)
            (verse_fallback s lib (verse_response s lib w lvl)))"
  by (simp add: agent_verse_retriever_def verse_response_def call_gpt_def bnd_def ret_def)

lemma reading_stage_result:
  assumes "reading_response s lib w vd lvl = Some r"
  shows "fst (agent_content_creator s lib w vd lvl) = Inr (loads_or lib r (reading_fallback s lib r))"
proof -
  obtain x cs where x: "reading_user_message s lib vd = (x, cs)" by (cases "reading_user_message s lib vd")
  with assms show ?thesis
    by (cases x) (auto simp: agent_content_creator_def reading_response_def call_gpt_def bnd_def ret_def)
qed

lemma lesson_stage_result:
  assumes "lesson_response s lib w vd rd lvl = Some r"
  shows "fst (agent_lesson_designer s lib w vd rd lvl) = Inr (loads_or lib r lesson_fallback)"
proof -
  obtain x cs where x: "lesson_user_message s lib vd rd = (x, cs)" by (cases "lesson_user_message s lib vd rd")
  with assms show ?thesis
    by (cases x) (auto simp: agent_lesson_designer_def lesson_response_def call_gpt_def bnd_def ret_def)
qed

lemma answer_stage_result:
  assumes "answer_response s lib w ld rd = Some r"
  shows "fst (agent_answer_key_generator s lib w ld vd rd) = Inr (loads_or lib r answer_fallback)"
proof -
  obtain x cs where x: "answer_user_message s lib ld rd = (x, cs)" by (cases "answer_user_message s lib ld rd")
  with assms show ?thesis
    by (cases x) (auto simp: agent_answer_key_generator_def answer_response_def call_gpt_def bnd_def ret_def)
qed

lemma loads_or_decoded:
  "extract_json_str r = Inr t \<Longrightarrow> json_loads lib t = Some v \<Longrightarrow> loads_or lib r fb = v"
  by (simp add: loads_or_def try_loads_def)

lemma loads_or_fallback:
  "extract_json_str r = Inr t \<Longrightarrow> json_loads lib t = None \<Longrightarrow> loads_or lib r fb = fb"
  by (simp add: loads_or_def try_loads_def)

section \<open>Extraction from a labelled fence\<close>

text \<open>
  Claim C1, as amended. Let the raw response of a stage hold a block opened by the first
  \<^verbatim>\<open>```json\<close> delimiter and closed by the next \<^verbatim>\<open>```\<close> delimiter, let \<open>t\<close> be the text
  between the two, and let the text \<open>rest\<close> after the closing delimiter start neither with
  \<^verbatim>\<open>`json\<close> nor with \<^verbatim>\<open>``json\<close>. If \<open>t\<close>, trimmed, decodes to \<open>v\<close>, then each of the four
  stages (verse, reading, exercise, answer) returns exactly \<open>v\<close>: nothing is renamed,
  added or lost, and nothing is raised.
\<close>

theorem labelled_fence_decoded:
  assumes "fenced_block fence_json fence r = Some (t, rest)"
    and "\<not> startswith rest (py ''`json'')" and "\<not> startswith rest (py ''``json'')"
    and "json_loads lib (py_strip t) = Some v"
  shows "(verse_response s lib w lvl = r \<longrightarrow> fst (agent_verse_retriever s lib w lvl) = Inr v)
       \<and> (reading_response s lib w vd lvl = Some r \<longrightarrow>
            fst (agent_content_creator s lib w vd lvl) = Inr v)
       \<and> (lesson_response s lib w vd rd lvl = Some r \<longrightarrow>
            fst (agent_lesson_designer s lib w vd rd lvl) = Inr v)
       \<and> (answer_response s lib w ld rd = Some r \<longrightarrow>
            fst (agent_answer_key_generator s lib w ld vd rd) = Inr v)"
proof -
  have e: "extract_json_str r = Inr (py_strip t)"
    by (rule json_block_text [OF assms(1-3)])
  have l: "loads_or lib r fb = v" for fb
    by (rule loads_or_decoded [OF e assms(4)])
  show ?thesis
    by (auto simp: verse_stage_result reading_stage_result lesson_stage_result answer_stage_result l)
qed

text \<open>Facts about the concrete environment, used by the closed examples.\<close>

lemma sample_fields:
  "json_loads sample_lib = loads_sample" "str_lower sample_lib = ascii_lower"
  "json_dumps sample_lib = dumps_sample" "py_repr sample_lib = repr_sample"
  by (simp_all add: sample_lib_def)

lemma answering_responses:
  "verse_response s lib (answering r) lvl = r"
  "reading_response s lib (answering r) (JObj d) lvl = Some r"
  "lesson_response s lib (answering r) (JObj d) (JObj []) lvl = Some r"
  "answer_response s lib (answering r) ld (JObj []) = Some r"
  by (simp_all add: verse_response_def reading_response_def lesson_response_def answer_response_def
      gpt_text_def answering_def reading_user_message_def lesson_user_message_def
      answer_user_message_def bnd_def ret_def lift_def)

text \<open>
  The theorem at the response \<^verbatim>\<open>```json{}```\<close>: all four stages return the empty record.
\<close>

theorem labelled_fence_decoded_witness:
  "fenced_block fence_json fence (py ''```json{}```'') = Some (py ''{}'', [])
   \<and> json_loads sample_lib (py_strip (py ''{}'')) = Some (JObj [])
   \<and> fst (agent_verse_retriever spanish_system sample_lib (answering (py ''```json{}```'')) (py ''B1'')) = Inr (JObj [])
   \<and> fst (agent_content_creator spanish_system sample_lib (answering (py ''```json{}```'')) (JObj []) (py ''B1'')) = Inr (JObj [])
   \<and> fst (agent_lesson_designer spanish_system sample_lib (answering (py ''```json{}```'')) (JObj []) (JObj []) (py ''B1'')) = Inr (JObj [])
   \<and> fst (agent_answer_key_generator spanish_system sample_lib (answering (py ''```json{}```'')) (JObj []) (JObj []) (JObj [])) = Inr (JObj [])"
proof -
  have h1: "fenced_block fence_json fence (py ''```json{}```'') = Some (py ''{}'', [])"
    by (simp add: fenced_block_def fence_def fence_json_def py_def)
  have h2: "\<not> startswith [] (py ''`json'')" and h3: "\<not> startswith [] (py ''``json'')"
    by (simp_all add: py_def)
  have h4: "json_loads sample_lib (py_strip (py ''{}'')) = Some (JObj [])"
    by (simp add: sample_fields loads_sample_def py_strip_def py_def is_space_def)
  from labelled_fence_decoded [OF h1 h2 h3 h4, of spanish_system "answering (py ''```json{}```'')"
      "py ''B1''" "JObj []" "JObj []" "JObj []"] h1 h4
  show ?thesis by (simp add: answering_responses)
qed


text \<open>
  Claim C1 as it was stated fails where the closing fence is followed by \<^verbatim>\<open>`json\<close>. In
  the response \<^verbatim>\<open>```json{}````json\<close> the text between the first \<^verbatim>\<open>```json\<close> and the next
  \<^verbatim>\<open>```\<close> is \<^verbatim>\<open>{}\<close>, which decodes to the empty record. The source splits at
  \<^verbatim>\<open>```json\<close> first, which cuts inside the run of four backquotes: \<^verbatim>\<open>json_str\<close> is
  \<^verbatim>\<open>{}`\<close>, decoding fails, and the verse stage returns its fallback record.
\<close>

theorem labelled_fence_counterexample:
  "fenced_block fence_json fence (py ''```json{}````json'') = Some (py ''{}'', py ''`json'')
   \<and> json_loads sample_lib (py_strip (py ''{}'')) = Some (JObj [])
   \<and> fst (agent_verse_retriever spanish_system sample_lib (answering (py ''```json{}````json'')) (py ''B1''))
       = Inr (verse_fallback spanish_system sample_lib (py ''```json{}````json''))
   \<and> verse_fallback spanish_system sample_lib (py ''```json{}````json'') \<noteq> JObj []"
proof -
  have h1: "fenced_block fence_json fence (py ''```json{}````json'') = Some (py ''{}'', py ''`json'')"
    by (simp add: fenced_block_def fence_def fence_json_def py_def)
  have h4: "json_loads sample_lib (py_strip (py ''{}'')) = Some (JObj [])"
    by (simp add: sample_fields loads_sample_def py_strip_def py_def is_space_def)
  have f: "find_sub fence_json (py ''```json{}````json'') = Some 0"
    by (simp add: fence_json_def py_def)
  have e: "extract_json_str (py ''```json{}````json'') = Inr (py ''{}`'')"
    unfolding extract_json_branch [OF f]
    by (simp add: before_def fence_def fence_json_def py_def py_strip_def is_space_def)
  have "json_loads sample_lib (py ''{}`'') = None"
    by (simp add: sample_fields loads_sample_def py_def)
  from loads_or_fallback [OF e this]
  have r: "fst (agent_verse_retriever spanish_system sample_lib (answering (py ''```json{}````json'')) (py ''B1''))
       = Inr (verse_fallback spanish_system sample_lib (py ''```json{}````json''))"
    by (simp add: verse_stage_result answering_responses)
  have n: "verse_fallback spanish_system sample_lib (py ''```json{}````json'') \<noteq> JObj []"
    by (simp add: verse_fallback_def mk_dict_def)
  from h1 h4 r n show ?thesis by blast
qed

section \<open>Fallback on a response without fences\<close>



section \<open>Extraction from a generic fence\<close>

text \<open>
  Claim C3. Let the raw response of a stage contain no \<^verbatim>\<open>```json\<close> label but a pair of
  generic fences \<^verbatim>\<open>```\<close>, and let \<open>t\<close> be the text between the first fence and the next.
  If \<open>t\<close>, trimmed, decodes to \<open>v\<close>, each of the four stages returns \<open>v\<close>.
\<close>

theorem generic_fence_decoded:
  assumes "\<not> contains fence_json r"
    and "fenced_block fence fence r = Some (t, rest)"
    and "json_loads lib (py_strip t) = Some v"
  shows "(verse_response s lib w lvl = r \<longrightarrow> fst (agent_verse_retriever s lib w lvl) = Inr v)
       \<and> (reading_response s lib w vd lvl = Some r \<longrightarrow>
            fst (agent_content_creator s lib w vd lvl) = Inr v)
       \<and> (lesson_response s lib w vd rd lvl = Some r \<longrightarrow>
            fst (agent_lesson_designer s lib w vd rd lvl) = Inr v)
       \<and> (answer_response s lib w ld rd = Some r \<longrightarrow>
            fst (agent_answer_key_generator s lib w ld vd rd) = Inr v)"
proof -
  have e: "extract_json_str r = Inr (py_strip t)"
    by (rule generic_block_text [OF assms(1,2)])
  have l: "loads_or lib r fb = v" for fb
    by (rule loads_or_decoded [OF e assms(3)])
  show ?thesis
    by (auto simp: verse_stage_result reading_stage_result lesson_stage_result answer_stage_result l)
qed

text \<open>The theorem at a response that wraps \<^verbatim>\<open>{}\<close> in prose and unlabelled fences.\<close>

theorem generic_fence_decoded_witness:
  "\<not> contains fence_json (py ''Sure:\<newline>```\<newline>{}\<newline>```\<newline>Enjoy.'')
   \<and> fenced_block fence fence (py ''Sure:\<newline>```\<newline>{}\<newline>```\<newline>Enjoy.'')
       = Some (py ''\<newline>{}\<newline>'', py ''\<newline>Enjoy.'')
   \<and> json_loads sample_lib (py_strip (py ''\<newline>{}\<newline>'')) = Some (JObj [])
   \<and> fst (agent_verse_retriever spanish_system sample_lib
         (answering (py ''Sure:\<newline>```\<newline>{}\<newline>```\<newline>Enjoy.'')) (py ''B1'')) = Inr (JObj [])
   \<and> fst (agent_content_creator spanish_system sample_lib
         (answering (py ''Sure:\<newline>```\<newline>{}\<newline>```\<newline>Enjoy.'')) (JObj []) (py ''B1'')) = Inr (JObj [])
   \<and> fst (agent_lesson_designer spanish_system sample_lib
         (answering (py ''Sure:\<newline>```\<newline>{}\<newline>```\<newline>Enjoy.'')) (JObj []) (JObj []) (py ''B1'')) = Inr (JObj [])
   \<and> fst (agent_answer_key_generator spanish_system sample_lib
         (answering (py ''Sure:\<newline>```\<newline>{}\<newline>```\<newline>Enjoy.'')) (JObj []) (JObj []) (JObj [])) = Inr (JObj [])"
proof -
  have h1: "\<not> contains fence_json (py ''Sure:\<newline>```\<newline>{}\<newline>```\<newline>Enjoy.'')"
    by (simp add: fence_json_def py_def)
  have h2: "fenced_block fence fence (py ''Sure:\<newline>```\<newline>{}\<newline>```\<newline>Enjoy.'')
       = Some (py ''\<newline>{}\<newline>'', py ''\<newline>Enjoy.'')"
    by (simp add: fenced_block_def fence_def py_def)
  have h3: "json_loads sample_lib (py_strip (py ''\<newline>{}\<newline>'')) = Some (JObj [])"
    by (simp add: sample_fields loads_sample_def py_strip_def py_def is_space_def)
  from generic_fence_decoded [OF h1 h2 h3, of spanish_system
      "answering (py ''Sure:\<newline>```\<newline>{}\<newline>```\<newline>Enjoy.'')"
      "py ''B1''" "JObj []" "JObj []" "JObj []"] h1 h2 h3
  show ?thesis by (simp add: answering_responses)
qed

section \<open>Keys of the fallback records\<close>




text \<open>The result and the calls of a sequenced computation.\<close>

lemma fst_bnd: "fst (bnd m f) = (case fst m of Inl e \<Rightarrow> Inl e | Inr x \<Rightarrow> fst (f x))"
  by (cases m; cases "fst m") (auto simp: bnd_def split: prod.splits)

lemma snd_bnd: "snd (bnd m f) = (case fst m of Inl e \<Rightarrow> snd m | Inr x \<Rightarrow> snd m @ snd (f x))"
  by (cases m; cases "fst m") (auto simp: bnd_def split: prod.splits)

lemma fst_lift [simp]: "fst (lift r) = r" and snd_lift [simp]: "snd (lift r) = []"
  by (simp_all add: lift_def)

lemma fst_ret [simp]: "fst (ret x) = Inr x" and snd_ret [simp]: "snd (ret x) = []"
  by (simp_all add: ret_def)


lemma loads_or_none: "try_loads lib r = None \<Longrightarrow> loads_or lib r fb = fb"
  by (simp add: loads_or_def)


text \<open>The theorem at a refusal in plain prose, for Spanish.\<close>

lemma undecodable: "try_loads sample_lib (py ''I cannot help with that.'') = None"
  by (simp add: try_loads_def no_fence_text fence_def py_def sample_fields loads_sample_def
      py_strip_def is_space_def)



text \<open>
  A decoded value need not be a record at all. On the response \<^verbatim>\<open>[]\<close> the verse stage
  returns a list, and the reading stage raises \<^verbatim>\<open>AttributeError\<close> at
  \<^verbatim>\<open>verse_data.get\<close>, which ends the run.
\<close>

lemma list_response_aborts_run:
  "fst (run_full_lesson_generation spanish_system sample_lib (answering (py ''[]'')) (py ''B1''))
     = Inl AttributeError"
proof -
  have "extract_json_str (py ''[]'') = Inr (py ''[]'')"
    by (simp add: no_fence_text fence_def py_def py_strip_def is_space_def)
  moreover have "json_loads sample_lib (py ''[]'') = Some (JArr [])"
    by (simp add: sample_fields loads_sample_def py_def)
  ultimately have l: "loads_or sample_lib (py ''[]'') fb = JArr []" for fb
    by (rule loads_or_decoded)
  have v: "fst (agent_verse_retriever spanish_system sample_lib (answering (py ''[]'')) (py ''B1''))
    = Inr (JArr [])"
    by (simp add: verse_stage_result answering_responses l)
  have c: "fst (agent_content_creator spanish_system sample_lib (answering (py ''[]'')) (JArr []) (py ''B1''))
    = Inl AttributeError"
    by (simp add: agent_content_creator_def reading_user_message_def fst_bnd)
  show ?thesis
    by (simp add: run_full_lesson_generation_def fst_bnd v c)
qed

section \<open>The voice of the speech request\<close>

text \<open>
  Claim C9. For every target-language label, in the table or not, the voice lookup
  gives the same identifier \<^verbatim>\<open>pNInz6obpgDQGcFmaJgB\<close>: each of the ten entries of the table
  and the default for an unmapped language are this one constant.
\<close>

theorem voice_is_constant:
  "voice_id language = py ''pNInz6obpgDQGcFmaJgB''
   \<and> map snd voice_map = replicate 10 (py ''pNInz6obpgDQGcFmaJgB'')"
  by (simp add: voice_id_def voice_map_def numeral_eq_Suc split: option.splits)

section \<open>Rendering a bundle that holds only the level\<close>

lemma py_eq_iff: "py a = py b \<longleftrightarrow> a = b"
proof -
  have "inj (of_char :: char \<Rightarrow> nat)" by (rule injI) simp
  then show ?thesis by (simp add: py_def inj_map_eq_map)
qed




section \<open>The language key of the display formatter\<close>

lemma verse_lang_key_first:
  assumes "d = pre @ (k, v) # post" and "lang_keys pre = []"
    and "startswith k (py ''verse_text_'')" and "k \<noteq> py ''verse_text_english''"
  shows "verse_lang_key d = k"
proof -
  have "lang_keys d = lang_keys pre @ k # lang_keys post"
    using assms(1,3,4) by (simp add: lang_keys_def)
  with assms(2) show ?thesis by (simp add: verse_lang_key_def)
qed

lemma verse_lang_key_not_english:
  assumes "k \<in> fst ` set d" and "startswith k (py ''verse_text_'')" and "k \<noteq> py ''verse_text_english''"
  shows "verse_lang_key d \<noteq> py ''verse_text_english''"
proof -
  from assms have "k \<in> set (lang_keys d)" by (auto simp: lang_keys_def)
  then obtain k' ks where l: "lang_keys d = k' # ks" by (cases "lang_keys d") auto
  then have "k' \<in> set (lang_keys d)" by simp
  then have "k' \<noteq> py ''verse_text_english''" by (simp add: lang_keys_def)
  with l show ?thesis by (simp add: verse_lang_key_def)
qed

text \<open>
  Claim C6, as amended. The display formatter selects, as the key of the primary text,
  the first key of the verse record, in the record's order, that starts with
  \<^verbatim>\<open>verse_text_\<close> and is not \<^verbatim>\<open>verse_text_english\<close>. So it selects \<^verbatim>\<open>verse_text_french\<close>
  when no other such key stands before it; it never selects \<^verbatim>\<open>verse_text_english\<close> when
  the record has another key starting with \<^verbatim>\<open>verse_text_\<close>; and the text displayed is
  the value stored under the selected key.
\<close>

theorem first_language_key_is_primary:
  "(d = pre @ (py ''verse_text_french'', v) # post \<and> lang_keys pre = [] \<longrightarrow>
      verse_lang_key d = py ''verse_text_french'')
   \<and> ((\<exists>k\<in>fst ` set d. startswith k (py ''verse_text_'') \<and> k \<noteq> py ''verse_text_english'') \<longrightarrow>
      verse_lang_key d \<noteq> py ''verse_text_english'')
   \<and> (map_of d (verse_lang_key d) = Some x \<longrightarrow> display_verse d = x)"
proof -
  have f: "startswith (py ''verse_text_french'') (py ''verse_text_'')"
    "py ''verse_text_french'' \<noteq> py ''verse_text_english''"
    by (simp_all add: py_def)
  have 1: "d = pre @ (py ''verse_text_french'', v) # post \<and> lang_keys pre = [] \<longrightarrow>
      verse_lang_key d = py ''verse_text_french''"
    using f by (auto intro: verse_lang_key_first)
  have 2: "(\<exists>k\<in>fst ` set d. startswith k (py ''verse_text_'') \<and> k \<noteq> py ''verse_text_english'') \<longrightarrow>
      verse_lang_key d \<noteq> py ''verse_text_english''"
    using verse_lang_key_not_english [of _ d] by blast
  have 3: "map_of d (verse_lang_key d) = Some x \<longrightarrow> display_verse d = x"
    by (simp add: display_verse_def)
  from 1 2 3 show ?thesis by blast
qed

text \<open>The theorem at a French verse record.\<close>

theorem first_language_key_is_primary_witness:
  "lang_keys [(py ''verse_reference'', JStr (py ''Jean 3:16'')),
              (py ''verse_text_english'', JStr (py ''For God so loved the world''))] = []
   \<and> verse_lang_key
        [(py ''verse_reference'', JStr (py ''Jean 3:16'')),
         (py ''verse_text_english'', JStr (py ''For God so loved the world'')),
         (py ''verse_text_french'', JStr (py ''Car Dieu a tant aime le monde''))]
       = py ''verse_text_french''
   \<and> verse_lang_key
        [(py ''verse_reference'', JStr (py ''Jean 3:16'')),
         (py ''verse_text_english'', JStr (py ''For God so loved the world'')),
         (py ''verse_text_french'', JStr (py ''Car Dieu a tant aime le monde''))]
       \<noteq> py ''verse_text_english''
   \<and> display_verse
        [(py ''verse_reference'', JStr (py ''Jean 3:16'')),
         (py ''verse_text_english'', JStr (py ''For God so loved the world'')),
         (py ''verse_text_french'', JStr (py ''Car Dieu a tant aime le monde''))]
       = JStr (py ''Car Dieu a tant aime le monde'')"
proof -
  let ?pre = "[(py ''verse_reference'', JStr (py ''Jean 3:16'')),
               (py ''verse_text_english'', JStr (py ''For God so loved the world''))]"
  let ?d = "?pre @ [(py ''verse_text_french'', JStr (py ''Car Dieu a tant aime le monde''))]"
  have p: "lang_keys ?pre = []"
    by (simp add: lang_keys_def py_def)
  have k: "py ''verse_text_french'' \<in> fst ` set ?d" by simp
  have f: "startswith (py ''verse_text_french'') (py ''verse_text_'')"
    "py ''verse_text_french'' \<noteq> py ''verse_text_english''"
    by (simp_all add: py_def)
  from first_language_key_is_primary [of ?d ?pre "JStr (py ''Car Dieu a tant aime le monde'')" "[]"
      "JStr (py ''Car Dieu a tant aime le monde'')"] p k f
  have "verse_lang_key ?d = py ''verse_text_french''"
    and "verse_lang_key ?d \<noteq> py ''verse_text_english''"
    and "map_of ?d (verse_lang_key ?d) = Some (JStr (py ''Car Dieu a tant aime le monde'')) \<longrightarrow>
         display_verse ?d = JStr (py ''Car Dieu a tant aime le monde'')"
    by blast+
  moreover have "map_of ?d (py ''verse_text_french'') = Some (JStr (py ''Car Dieu a tant aime le monde''))"
    by (simp add: py_eq_iff)
  ultimately show ?thesis using p by simp
qed

text \<open>
  Claim C6 as it was stated fails on a record with two language keys: with
  \<^verbatim>\<open>verse_text_spanish\<close> before \<^verbatim>\<open>verse_text_french\<close>, both \<^verbatim>\<open>verse_text_french\<close> and
  \<^verbatim>\<open>verse_text_english\<close> are there, and the formatter selects \<^verbatim>\<open>verse_text_spanish\<close>.
\<close>

theorem first_language_key_counterexample:
  "has_key (JObj [(py ''verse_text_spanish'', JStr (py ''Porque de tal manera'')),
                  (py ''verse_text_french'', JStr (py ''Car Dieu a tant aime'')),
                  (py ''verse_text_english'', JStr (py ''For God so loved''))]) (py ''verse_text_french'')
   \<and> has_key (JObj [(py ''verse_text_spanish'', JStr (py ''Porque de tal manera'')),
                  (py ''verse_text_french'', JStr (py ''Car Dieu a tant aime'')),
                  (py ''verse_text_english'', JStr (py ''For God so loved''))]) (py ''verse_text_english'')
   \<and> verse_lang_key [(py ''verse_text_spanish'', JStr (py ''Porque de tal manera'')),
                  (py ''verse_text_french'', JStr (py ''Car Dieu a tant aime'')),
                  (py ''verse_text_english'', JStr (py ''For God so loved''))] = py ''verse_text_spanish''
   \<and> py ''verse_text_spanish'' \<noteq> py ''verse_text_french''
   \<and> display_verse [(py ''verse_text_spanish'', JStr (py ''Porque de tal manera'')),
                  (py ''verse_text_french'', JStr (py ''Car Dieu a tant aime'')),
                  (py ''verse_text_english'', JStr (py ''For God so loved''))] = JStr (py ''Porque de tal manera'')"
  by (simp add: verse_lang_key_def lang_keys_def display_verse_def py_def)

section \<open>The display formatter without a language key\<close>



lemma content_fields:
  "py_get (lesson_content_of lvl vd rd ld ans ap) (py ''verse_data'') dflt = Inr vd"
  "py_get (lesson_content_of lvl vd rd ld ans ap) (py ''reading_data'') dflt = Inr rd"
  "py_get (lesson_content_of lvl vd rd ld ans ap) (py ''lesson_data'') dflt = Inr ld"
  "py_get (lesson_content_of lvl vd rd ld ans ap) (py ''answers'') dflt = Inr ans"
  "py_get (lesson_content_of lvl vd rd ld ans ap) (py ''level'') dflt = Inr (JStr lvl)"
  "py_get (lesson_content_of lvl vd rd ld ans ap) (py ''audio_path'') dflt =
     Inr (case ap of None \<Rightarrow> JNull | Some p \<Rightarrow> JStr p)"
  by (simp_all add: lesson_content_of_def mk_dict_def py_eq_iff)




section \<open>The run without a synthesis credential\<close>

lemma tts_without_key: "\<not> key_given s \<Longrightarrow> agent_tts_generator s w text = (Inr None, [])"
  by (auto simp: key_given_def agent_tts_generator_def ret_def split: option.splits)

lemma audio_step_without_key: "\<not> key_given s \<Longrightarrow> audio_step s lib w rd = (Inr None, [])"
  by (simp add: audio_step_def ret_def)

lemma snd_call_gpt: "snd (call_gpt s w sp um t) = [ChatCompletion (model s) sp um t]"
  and fst_call_gpt: "fst (call_gpt s w sp um t) = Inr (gpt_text s w sp um t)"
  by (simp_all add: call_gpt_def)

lemma verse_calls:
  "snd (agent_verse_retriever s lib w lvl) =
     [ChatCompletion (model s) (verse_system_prompt s lib lvl) (verse_user_message s lvl) 7]"
  by (simp add: agent_verse_retriever_def snd_bnd fst_call_gpt snd_call_gpt)

lemma no_calls_in_messages:
  "snd (reading_user_message s lib vd) = []"
  "snd (lesson_user_message s lib vd rd) = []"
  "snd (answer_user_message s lib ld rd) = []"
  by (auto simp: reading_user_message_def lesson_user_message_def answer_user_message_def snd_bnd
      split: sum.splits)

lemma reading_calls:
  "snd (agent_content_creator s lib w vd lvl) =
     (case fst (reading_user_message s lib vd) of
        Inl e \<Rightarrow> []
      | Inr um \<Rightarrow> [ChatCompletion (model s) (reading_system_prompt s lib lvl) um 8])"
  by (simp add: agent_content_creator_def snd_bnd fst_call_gpt snd_call_gpt no_calls_in_messages
      split: sum.splits)

lemma lesson_calls:
  "snd (agent_lesson_designer s lib w vd rd lvl) =
     (case fst (lesson_user_message s lib vd rd) of
        Inl e \<Rightarrow> []
      | Inr um \<Rightarrow> [ChatCompletion (model s) (lesson_system_prompt s lvl) um 7])"
  by (simp add: agent_lesson_designer_def snd_bnd fst_call_gpt snd_call_gpt no_calls_in_messages
      split: sum.splits)

lemma answer_calls:
  "snd (agent_answer_key_generator s lib w ld vd rd) =
     (case fst (answer_user_message s lib ld rd) of
        Inl e \<Rightarrow> []
      | Inr um \<Rightarrow> [ChatCompletion (model s) (answer_system_prompt s) um 5])"
  by (simp add: agent_answer_key_generator_def snd_bnd fst_call_gpt snd_call_gpt no_calls_in_messages
      split: sum.splits)

lemma bnd_calls:
  "list_all P (snd m) \<Longrightarrow> (\<And>x. list_all P (snd (f x))) \<Longrightarrow> list_all P (snd (bnd m f))"
  by (cases "fst m") (simp_all add: snd_bnd)

lemma generate_pdf_calls: "list_all is_build (snd (generate_pdf s lib w lc fn))"
  unfolding generate_pdf_def Let_def
  by (intro bnd_calls) simp_all

lemma stage_calls_chat:
  "list_all is_chat (snd (agent_verse_retriever s lib w lvl))"
  "list_all is_chat (snd (agent_content_creator s lib w vd lvl))"
  "list_all is_chat (snd (agent_lesson_designer s lib w vd rd lvl))"
  "list_all is_chat (snd (agent_answer_key_generator s lib w ld vd rd))"
  by (simp_all add: verse_calls reading_calls lesson_calls answer_calls split: sum.splits)

lemma list_all_weaken: "list_all P xs \<Longrightarrow> (\<And>x. P x \<Longrightarrow> Q x) \<Longrightarrow> list_all Q xs"
  by (induction xs) auto

lemma run_calls_without_key:
  assumes "\<not> key_given s"
  shows "list_all (\<lambda>c. is_chat c \<or> is_build c) (snd (run_full_lesson_generation s lib w lvl))"
  unfolding run_full_lesson_generation_def Let_def
proof (intro bnd_calls)
  show "list_all (\<lambda>c. is_chat c \<or> is_build c) (snd (agent_verse_retriever s lib w lvl))"
    by (rule list_all_weaken [OF stage_calls_chat(1)]) simp
  show "list_all (\<lambda>c. is_chat c \<or> is_build c) (snd (agent_content_creator s lib w vd lvl))" for vd
    by (rule list_all_weaken [OF stage_calls_chat(2)]) simp
  show "list_all (\<lambda>c. is_chat c \<or> is_build c) (snd (agent_lesson_designer s lib w vd rd lvl))" for vd rd
    by (rule list_all_weaken [OF stage_calls_chat(3)]) simp
  show "list_all (\<lambda>c. is_chat c \<or> is_build c) (snd (agent_answer_key_generator s lib w ld vd rd))" for ld vd rd
    by (rule list_all_weaken [OF stage_calls_chat(4)]) simp
  show "list_all (\<lambda>c. is_chat c \<or> is_build c) (snd (audio_step s lib w rd))" for rd
    by (simp add: audio_step_without_key [OF assms])
  show "list_all (\<lambda>c. is_chat c \<or> is_build c) (snd (generate_pdf s lib w lc None))" for lc
    by (rule list_all_weaken [OF generate_pdf_calls]) simp
  show "list_all (\<lambda>c. is_chat c \<or> is_build c) (snd (ret x))" for x :: "json \<times> pystr \<times> pystr option"
    by simp
qed

lemma run_result_without_key:
  assumes "\<not> key_given s"
    and "fst (agent_verse_retriever s lib w lvl) = Inr vd"
    and "fst (agent_content_creator s lib w vd lvl) = Inr rd"
    and "fst (agent_lesson_designer s lib w vd rd lvl) = Inr ld"
    and "fst (agent_answer_key_generator s lib w ld vd rd) = Inr ans"
  shows "fst (run_full_lesson_generation s lib w lvl) =
     (case fst (generate_pdf s lib w (lesson_content_of lvl vd rd ld ans None) None) of
        Inl e \<Rightarrow> Inl e
      | Inr pdf_path \<Rightarrow> Inr (lesson_content_of lvl vd rd ld ans None, pdf_path, None))"
  using assms(2-5)
  by (simp add: run_full_lesson_generation_def fst_bnd audio_step_without_key [OF assms(1)] Let_def
      split: sum.splits)

lemma run_audio_without_key:
  assumes "\<not> key_given s"
    and "fst (run_full_lesson_generation s lib w lvl) = Inr (content, pdf, audio)"
  shows "audio = None" and "py_get content (py ''audio_path'') dflt = Inr JNull"
  using assms(2)
  by (auto simp: run_full_lesson_generation_def fst_bnd audio_step_without_key [OF assms(1)] Let_def
      content_fields split: sum.splits)

text \<open>
  Claim C8. Let no synthesis credential be supplied (the key is \<^verbatim>\<open>None\<close> or empty). Then
  for every input text the audio stage returns \<^verbatim>\<open>None\<close>, no path, and makes no call at
  all; the audio step of the pipeline does the same; a whole run issues no speech
  request and writes no audio file; a run that completes returns no audio path and a
  bundle whose \<^verbatim>\<open>audio_path\<close> is \<^verbatim>\<open>None\<close>; and once the four generation stages have
  returned, the run goes on to the renderer and ends as the renderer does: the missing
  audio is no failure.
\<close>

theorem no_credential_no_audio:
  assumes "\<not> key_given s"
  shows "agent_tts_generator s w reading_text = (Inr None, [])
       \<and> audio_step s lib w rd = (Inr None, [])
       \<and> (\<forall>url k payload. HttpPost url k payload \<notin> set (snd (run_full_lesson_generation s lib w lvl)))
       \<and> (\<forall>path. FileWrite path \<notin> set (snd (run_full_lesson_generation s lib w lvl)))
       \<and> (\<forall>content pdf audio.
             fst (run_full_lesson_generation s lib w lvl) = Inr (content, pdf, audio) \<longrightarrow>
               audio = None \<and> py_get content (py ''audio_path'') dflt = Inr JNull)
       \<and> (fst (agent_verse_retriever s lib w lvl) = Inr vd
            \<and> fst (agent_content_creator s lib w vd lvl) = Inr rd'
            \<and> fst (agent_lesson_designer s lib w vd rd' lvl) = Inr ld
            \<and> fst (agent_answer_key_generator s lib w ld vd rd') = Inr ans \<longrightarrow>
           fst (run_full_lesson_generation s lib w lvl) =
             (case fst (generate_pdf s lib w (lesson_content_of lvl vd rd' ld ans None) None) of
                Inl e \<Rightarrow> Inl e
              | Inr pdf_path \<Rightarrow> Inr (lesson_content_of lvl vd rd' ld ans None, pdf_path, None)))"
proof -
  have 1: "agent_tts_generator s w reading_text = (Inr None, [])"
    by (rule tts_without_key [OF assms])
  have 2: "audio_step s lib w rd = (Inr None, [])"
    by (rule audio_step_without_key [OF assms])
  have calls: "c \<in> set (snd (run_full_lesson_generation s lib w lvl)) \<Longrightarrow> is_chat c \<or> is_build c" for c
    using run_calls_without_key [OF assms, of lib w lvl] by (simp add: list_all_iff)
  have 3: "\<forall>url k payload. HttpPost url k payload \<notin> set (snd (run_full_lesson_generation s lib w lvl))"
    using calls by fastforce
  have 4: "\<forall>path. FileWrite path \<notin> set (snd (run_full_lesson_generation s lib w lvl))"
    using calls by fastforce
  have 5: "\<forall>content pdf audio.
             fst (run_full_lesson_generation s lib w lvl) = Inr (content, pdf, audio) \<longrightarrow>
               audio = None \<and> py_get content (py ''audio_path'') dflt = Inr JNull"
    using run_audio_without_key [OF assms, of lib w lvl] by blast
  have 6: "fst (agent_verse_retriever s lib w lvl) = Inr vd
            \<and> fst (agent_content_creator s lib w vd lvl) = Inr rd'
            \<and> fst (agent_lesson_designer s lib w vd rd' lvl) = Inr ld
            \<and> fst (agent_answer_key_generator s lib w ld vd rd') = Inr ans \<longrightarrow>
           fst (run_full_lesson_generation s lib w lvl) =
             (case fst (generate_pdf s lib w (lesson_content_of lvl vd rd' ld ans None) None) of
                Inl e \<Rightarrow> Inl e
              | Inr pdf_path \<Rightarrow> Inr (lesson_content_of lvl vd rd' ld ans None, pdf_path, None))"
    using run_result_without_key [OF assms, of lib w lvl vd rd' ld ans] by blast
  show ?thesis
    using 1 2 3 4 5 6 by (intro conjI)
qed

section \<open>Rendering records\<close>

text \<open>
  \<^verbatim>\<open>generate_pdf\<close> raises nothing when the four parts of the bundle are records and the
  vocabulary, if it is a list, is a list of strings.
\<close>

lemma vocab_text_ok:
  assumes "\<And>xs. vocab = JArr xs \<Longrightarrow> \<exists>ts. strs_of xs = Inr ts"
  shows "\<exists>t. (if truthy vocab
              then (case vocab of JArr xs \<Rightarrow> join_list sep xs | _ \<Rightarrow> Inr (py_str lib vocab))
              else Inr []) = Inr t"
proof (cases vocab)
  case (JArr xs)
  with assms obtain ts where "strs_of xs = Inr ts" by blast
  with JArr show ?thesis by (simp add: join_list_def then_do_def)
qed simp_all

lemma generate_pdf_records:
  assumes "\<And>xs. map_of rd (py ''key_vocabulary'') = Some (JArr xs) \<Longrightarrow> \<exists>ts. strs_of xs = Inr ts"
  shows "fst (generate_pdf s lib w (lesson_content_of lvl (JObj vd) (JObj rd) (JObj ld) (JObj ans) ap) None)
     = Inr (path_join w (gettempdir w) (py ''bible_lesson_'' @ pdf_stamp w @ py ''.pdf''))"
proof -
  define vocab where "vocab = (case map_of rd (py ''key_vocabulary'') of Some v \<Rightarrow> v | None \<Rightarrow> JArr [])"
  have "\<And>xs. vocab = JArr xs \<Longrightarrow> \<exists>ts. strs_of xs = Inr ts"
    using assms by (auto simp: vocab_def split: option.splits)
  from vocab_text_ok [OF this, where sep = "py '', ''" and lib = lib] obtain t where
    t: "(if truthy vocab
         then (case vocab of JArr xs \<Rightarrow> join_list (py '', '') xs | _ \<Rightarrow> Inr (py_str lib vocab))
         else Inr []) = Inr t" by blast
  show ?thesis
    unfolding generate_pdf_def Let_def
    by (simp add: fst_bnd content_fields vocab_def [symmetric] t)
qed

section \<open>A run in which every stage falls back\<close>

lemma reading_fallback_text:
  "\<exists>t. py_get (reading_fallback s lib r) (py ''reading_text_'' @ lang_lower s lib) dflt = Inr (JStr t)"
  by (simp add: reading_fallback_def mk_dict_def py_def)

lemma reading_fallback_vocabulary:
  "py_get (reading_fallback s lib r) (py ''key_vocabulary'') dflt
     = Inr (JArr [JStr (py ''faith''), JStr (py ''love''), JStr (py ''grace'')])"
  by (simp add: reading_fallback_def mk_dict_def py_def)

lemma messages_on_fallbacks:
  "\<exists>um. fst (reading_user_message s lib (verse_fallback s lib r)) = Inr um"
  "\<exists>um. fst (lesson_user_message s lib (verse_fallback s lib r) (reading_fallback s lib r')) = Inr um"
  "\<exists>um. fst (answer_user_message s lib ld (reading_fallback s lib r')) = Inr um"
proof -
  obtain vd where vd: "verse_fallback s lib r = JObj vd"
    by (simp add: verse_fallback_def)
  show "\<exists>um. fst (reading_user_message s lib (verse_fallback s lib r)) = Inr um"
    by (simp add: reading_user_message_def vd fst_bnd)
  obtain t where t: "py_get (reading_fallback s lib r') (py ''reading_text_'' @ lang_lower s lib) (JStr [])
      = Inr (JStr t)"
    using reading_fallback_text by blast
  show "\<exists>um. fst (lesson_user_message s lib (verse_fallback s lib r) (reading_fallback s lib r')) = Inr um"
    by (simp add: lesson_user_message_def fst_bnd t reading_fallback_vocabulary vd)
  show "\<exists>um. fst (answer_user_message s lib ld (reading_fallback s lib r')) = Inr um"
    by (simp add: answer_user_message_def fst_bnd t reading_fallback_vocabulary)
qed

lemma answering_any:
  "fst (reading_user_message s lib vd) = Inr um \<Longrightarrow> reading_response s lib (answering r) vd lvl = Some r"
  "fst (lesson_user_message s lib vd rd) = Inr um \<Longrightarrow> lesson_response s lib (answering r) vd rd lvl = Some r"
  "fst (answer_user_message s lib ld rd) = Inr um \<Longrightarrow> answer_response s lib (answering r) ld rd = Some r"
  by (simp_all add: reading_response_def lesson_response_def answer_response_def gpt_text_def
      answering_def)

lemma stages_on_undecodable:
  assumes "try_loads lib r = None"
  shows "fst (agent_verse_retriever s lib (answering r) lvl) = Inr (verse_fallback s lib r)"
    and "fst (agent_content_creator s lib (answering r) (verse_fallback s lib r) lvl)
           = Inr (reading_fallback s lib r)"
    and "fst (agent_lesson_designer s lib (answering r) (verse_fallback s lib r)
           (reading_fallback s lib r) lvl) = Inr lesson_fallback"
    and "fst (agent_answer_key_generator s lib (answering r) lesson_fallback (verse_fallback s lib r)
           (reading_fallback s lib r)) = Inr answer_fallback"
proof -
  note l = loads_or_none [OF assms]
  show "fst (agent_verse_retriever s lib (answering r) lvl) = Inr (verse_fallback s lib r)"
    by (simp add: verse_stage_result answering_responses l)
  from messages_on_fallbacks(1) [of s lib r] obtain um1 where
    "fst (reading_user_message s lib (verse_fallback s lib r)) = Inr um1" by blast
  from reading_stage_result [OF answering_any(1) [OF this]]
  show "fst (agent_content_creator s lib (answering r) (verse_fallback s lib r) lvl)
           = Inr (reading_fallback s lib r)"
    by (simp add: l)
  from messages_on_fallbacks(2) [of s lib r r] obtain um2 where
    "fst (lesson_user_message s lib (verse_fallback s lib r) (reading_fallback s lib r)) = Inr um2" by blast
  from lesson_stage_result [OF answering_any(2) [OF this]]
  show "fst (agent_lesson_designer s lib (answering r) (verse_fallback s lib r)
           (reading_fallback s lib r) lvl) = Inr lesson_fallback"
    by (simp add: l)
  from messages_on_fallbacks(3) [of s lib lesson_fallback r] obtain um3 where
    "fst (answer_user_message s lib lesson_fallback (reading_fallback s lib r)) = Inr um3" by blast
  from answer_stage_result [OF answering_any(3) [OF this]]
  show "fst (agent_answer_key_generator s lib (answering r) lesson_fallback (verse_fallback s lib r)
           (reading_fallback s lib r)) = Inr answer_fallback"
    by (simp add: l)
qed

lemma fallback_bundle_renders:
  "fst (generate_pdf s lib w
      (lesson_content_of lvl (verse_fallback s lib r) (reading_fallback s lib r) lesson_fallback
         answer_fallback ap) None)
     = Inr (path_join w (gettempdir w) (py ''bible_lesson_'' @ pdf_stamp w @ py ''.pdf''))"
proof -
  obtain vd rd ld ans where d: "verse_fallback s lib r = JObj vd" "reading_fallback s lib r = JObj rd"
    "lesson_fallback = JObj ld" "answer_fallback = JObj ans"
    by (simp add: verse_fallback_def reading_fallback_def lesson_fallback_def answer_fallback_def)
  have "map_of rd (py ''key_vocabulary'') = Some (JArr xs) \<Longrightarrow> \<exists>ts. strs_of xs = Inr ts" for xs
    using reading_fallback_vocabulary [of s lib r "JNull"] unfolding d
    by (auto simp: then_do_def split: option.splits)
  from generate_pdf_records [OF this] show ?thesis unfolding d by simp
qed

lemma no_key_spanish: "\<not> key_given spanish_system"
  by (simp add: key_given_def spanish_system_def)

lemma fallback_run:
  assumes "try_loads sample_lib r = None"
  shows "fst (run_full_lesson_generation spanish_system sample_lib (answering r) lvl) =
     Inr (lesson_content_of lvl (verse_fallback spanish_system sample_lib r)
            (reading_fallback spanish_system sample_lib r) lesson_fallback answer_fallback None,
          py ''/tmp/bible_lesson_20240101_120001.pdf'', None)"
proof -
  have p: "path_join (answering r) (gettempdir (answering r))
      (py ''bible_lesson_'' @ pdf_stamp (answering r) @ py ''.pdf'')
      = py ''/tmp/bible_lesson_20240101_120001.pdf''"
    by (simp add: answering_def py_def)
  show ?thesis
    by (simp add: run_result_without_key [OF no_key_spanish stages_on_undecodable [OF assms]]
        fallback_bundle_renders p)
qed

text \<open>
  The theorem of claim C8 at the Spanish system without a key, in a world that answers
  every request with a refusal: the run completes, with the fallback records, a
  document path and no audio.
\<close>

theorem no_credential_no_audio_witness:
  "\<not> key_given spanish_system
   \<and> agent_tts_generator spanish_system (answering (py ''I cannot help with that.''))
        (JStr (py ''Dios ama al mundo'')) = (Inr None, [])
   \<and> audio_step spanish_system sample_lib (answering (py ''I cannot help with that.''))
        (reading_fallback spanish_system sample_lib (py ''I cannot help with that.'')) = (Inr None, [])
   \<and> fst (run_full_lesson_generation spanish_system sample_lib
          (answering (py ''I cannot help with that.'')) (py ''B1'')) =
       Inr (lesson_content_of (py ''B1'')
              (verse_fallback spanish_system sample_lib (py ''I cannot help with that.''))
              (reading_fallback spanish_system sample_lib (py ''I cannot help with that.''))
              lesson_fallback answer_fallback None,
            py ''/tmp/bible_lesson_20240101_120001.pdf'', None)
   \<and> py_get (lesson_content_of (py ''B1'')
              (verse_fallback spanish_system sample_lib (py ''I cannot help with that.''))
              (reading_fallback spanish_system sample_lib (py ''I cannot help with that.''))
              lesson_fallback answer_fallback None) (py ''audio_path'') (JStr (py ''missing'')) = Inr JNull"
proof -
  let ?r = "py ''I cannot help with that.''"
  note run = fallback_run [OF undecodable, of "py ''B1''"]
  from no_credential_no_audio [OF no_key_spanish, of "answering ?r" "JStr (py ''Dios ama al mundo'')"
      sample_lib "reading_fallback spanish_system sample_lib ?r" "py ''B1''" "JStr (py ''missing'')"]
  have "agent_tts_generator spanish_system (answering ?r) (JStr (py ''Dios ama al mundo'')) = (Inr None, [])"
    and "audio_step spanish_system sample_lib (answering ?r)
        (reading_fallback spanish_system sample_lib ?r) = (Inr None, [])"
    and "\<forall>content pdf audio.
           fst (run_full_lesson_generation spanish_system sample_lib (answering ?r) (py ''B1''))
             = Inr (content, pdf, audio) \<longrightarrow>
           audio = None \<and> py_get content (py ''audio_path'') (JStr (py ''missing'')) = Inr JNull"
    by blast+
  with run no_key_spanish show ?thesis by simp
qed

section \<open>The exercise stage falls back\<close>

lemma answer_message_after_lesson:
  assumes "fst (lesson_user_message s lib vd rd) = Inr um"
  shows "\<exists>um'. fst (answer_user_message s lib ld rd) = Inr um'"
proof -
  from assms obtain passage reading vocabulary where
    g: "py_get rd (py ''reading_text_'' @ lang_lower s lib) (JStr []) = Inr passage"
    and sl: "py_slice_to passage 200 = Inr reading"
    and v: "py_get rd (py ''key_vocabulary'') (JArr []) = Inr vocabulary"
    by (auto simp: lesson_user_message_def fst_bnd split: sum.splits)
  from sl obtain reading' where "py_slice_to passage 300 = Inr reading'"
    by (cases passage) simp_all
  with g v show ?thesis
    by (simp add: answer_user_message_def fst_bnd)
qed

text \<open>
  Claim C7. Let a run have reached the exercise stage (the verse stage returned \<open>vd\<close>,
  the reading stage \<open>rd\<close>, and the exercise call was made), and let its raw response
  \<open>r\<close> not decode. Then the exercise stage returns its hard-coded fallback record, which
  has one item in each of the five categories. The answer stage is still invoked with
  that fallback as its exercise input: its user message is built from the fallback, its
  request is among the calls of the run, and it returns a record instead of raising. A
  run that completes carries the fallback as its \<^verbatim>\<open>lesson_data\<close>.
\<close>

theorem exercise_fallback_reaches_answer_stage:
  assumes "fst (agent_verse_retriever s lib w lvl) = Inr vd"
    and "fst (agent_content_creator s lib w vd lvl) = Inr rd"
    and "lesson_response s lib w vd rd lvl = Some r"
    and "try_loads lib r = None"
  shows "fst (agent_lesson_designer s lib w vd rd lvl) = Inr lesson_fallback
       \<and> list_all (\<lambda>k. \<exists>q. py_get lesson_fallback k JNull = Inr (JArr [JObj [(py ''question'', JStr q)]]))
             [py ''reading_exercises'', py ''writing_exercises'', py ''listening_exercises'',
              py ''speaking_exercises'', py ''filling_exercises'']
       \<and> (\<exists>um. fst (answer_user_message s lib lesson_fallback rd) = Inr um
             \<and> ChatCompletion (model s) (answer_system_prompt s) um 5
                 \<in> set (snd (run_full_lesson_generation s lib w lvl)))
       \<and> (\<exists>ans. fst (agent_answer_key_generator s lib w lesson_fallback vd rd) = Inr ans)
       \<and> (\<forall>content pdf audio.
             fst (run_full_lesson_generation s lib w lvl) = Inr (content, pdf, audio) \<longrightarrow>
               py_get content (py ''lesson_data'') JNull = Inr lesson_fallback)"
proof -
  have 1: "fst (agent_lesson_designer s lib w vd rd lvl) = Inr lesson_fallback"
    using lesson_stage_result [OF assms(3)] by (simp add: loads_or_none [OF assms(4)])
  from assms(3) obtain um3 where "fst (lesson_user_message s lib vd rd) = Inr um3"
    by (auto simp: lesson_response_def split: sum.splits)
  from answer_message_after_lesson [OF this] obtain um where
    um: "fst (answer_user_message s lib lesson_fallback rd) = Inr um" by blast
  have "ChatCompletion (model s) (answer_system_prompt s) um 5
      \<in> set (snd (run_full_lesson_generation s lib w lvl))"
    by (simp add: run_full_lesson_generation_def snd_bnd assms(1,2) 1 answer_calls um
        split: sum.splits)
  with um have 2: "\<exists>um. fst (answer_user_message s lib lesson_fallback rd) = Inr um
             \<and> ChatCompletion (model s) (answer_system_prompt s) um 5
                 \<in> set (snd (run_full_lesson_generation s lib w lvl))"
    by blast
  have "answer_response s lib w lesson_fallback rd
      = Some (gpt_text s w (answer_system_prompt s) um 5)"
    by (simp add: answer_response_def um)
  from answer_stage_result [OF this]
  have 3: "\<exists>ans. fst (agent_answer_key_generator s lib w lesson_fallback vd rd) = Inr ans"
    by blast
  have 4: "\<forall>content pdf audio.
             fst (run_full_lesson_generation s lib w lvl) = Inr (content, pdf, audio) \<longrightarrow>
               py_get content (py ''lesson_data'') JNull = Inr lesson_fallback"
    by (auto simp: run_full_lesson_generation_def fst_bnd assms(1,2) 1 Let_def content_fields
        split: sum.splits)
  have 5: "list_all (\<lambda>k. \<exists>q. py_get lesson_fallback k JNull = Inr (JArr [JObj [(py ''question'', JStr q)]]))
             [py ''reading_exercises'', py ''writing_exercises'', py ''listening_exercises'',
              py ''speaking_exercises'', py ''filling_exercises'']"
    by (simp add: lesson_fallback_def mk_dict_def py_eq_iff)
  from 1 2 3 4 5 show ?thesis by blast
qed

text \<open>
  The theorem at the Spanish system in a world that answers every request with a
  refusal. The run completes.
\<close>

theorem exercise_fallback_reaches_answer_stage_witness:
  "fst (agent_verse_retriever spanish_system sample_lib (answering (py ''I cannot help with that.'')) (py ''B1''))
     = Inr (verse_fallback spanish_system sample_lib (py ''I cannot help with that.''))
   \<and> fst (agent_content_creator spanish_system sample_lib (answering (py ''I cannot help with that.''))
          (verse_fallback spanish_system sample_lib (py ''I cannot help with that.'')) (py ''B1''))
     = Inr (reading_fallback spanish_system sample_lib (py ''I cannot help with that.''))
   \<and> lesson_response spanish_system sample_lib (answering (py ''I cannot help with that.''))
          (verse_fallback spanish_system sample_lib (py ''I cannot help with that.''))
          (reading_fallback spanish_system sample_lib (py ''I cannot help with that.'')) (py ''B1'')
     = Some (py ''I cannot help with that.'')
   \<and> try_loads sample_lib (py ''I cannot help with that.'') = None
   \<and> fst (agent_lesson_designer spanish_system sample_lib (answering (py ''I cannot help with that.''))
          (verse_fallback spanish_system sample_lib (py ''I cannot help with that.''))
          (reading_fallback spanish_system sample_lib (py ''I cannot help with that.'')) (py ''B1''))
     = Inr lesson_fallback
   \<and> (\<exists>um. fst (answer_user_message spanish_system sample_lib lesson_fallback
                  (reading_fallback spanish_system sample_lib (py ''I cannot help with that.''))) = Inr um
          \<and> ChatCompletion (py ''gpt-4o-mini'') (answer_system_prompt spanish_system) um 5
              \<in> set (snd (run_full_lesson_generation spanish_system sample_lib
                    (answering (py ''I cannot help with that.'')) (py ''B1''))))
   \<and> fst (run_full_lesson_generation spanish_system sample_lib
          (answering (py ''I cannot help with that.'')) (py ''B1'')) =
       Inr (lesson_content_of (py ''B1'')
              (verse_fallback spanish_system sample_lib (py ''I cannot help with that.''))
              (reading_fallback spanish_system sample_lib (py ''I cannot help with that.''))
              lesson_fallback answer_fallback None,
            py ''/tmp/bible_lesson_20240101_120001.pdf'', None)
   \<and> py_get (lesson_content_of (py ''B1'')
              (verse_fallback spanish_system sample_lib (py ''I cannot help with that.''))
              (reading_fallback spanish_system sample_lib (py ''I cannot help with that.''))
              lesson_fallback answer_fallback None) (py ''lesson_data'') JNull = Inr lesson_fallback"
proof -
  let ?r = "py ''I cannot help with that.''"
  let ?w = "answering ?r"
  let ?vd = "verse_fallback spanish_system sample_lib ?r"
  let ?rd = "reading_fallback spanish_system sample_lib ?r"
  note st = stages_on_undecodable [OF undecodable]
  from messages_on_fallbacks(2) [of spanish_system sample_lib ?r ?r] obtain um2 where
    "fst (lesson_user_message spanish_system sample_lib ?vd ?rd) = Inr um2" by blast
  from answering_any(2) [OF this]
  have h3: "lesson_response spanish_system sample_lib ?w ?vd ?rd (py ''B1'') = Some ?r" .
  note run = fallback_run [OF undecodable, of "py ''B1''"]
  have m: "model spanish_system = py ''gpt-4o-mini''" by (simp add: spanish_system_def)
  from exercise_fallback_reaches_answer_stage [OF st(1) st(2) h3 undecodable]
  have "\<exists>um. fst (answer_user_message spanish_system sample_lib lesson_fallback ?rd) = Inr um
          \<and> ChatCompletion (py ''gpt-4o-mini'') (answer_system_prompt spanish_system) um 5
              \<in> set (snd (run_full_lesson_generation spanish_system sample_lib ?w (py ''B1'')))"
    and "\<forall>content pdf audio.
           fst (run_full_lesson_generation spanish_system sample_lib ?w (py ''B1''))
             = Inr (content, pdf, audio) \<longrightarrow>
           py_get content (py ''lesson_data'') JNull = Inr lesson_fallback"
    unfolding m by blast+
  with st h3 undecodable run show ?thesis by simp
qed

end
